theory Spec2Isabelle
  imports Complex_Main "HOL-Library.Word"
begin

section \<open>Animated mask compositing: the icon shine sweep and the year scroll\<close>

text \<open>
  A shallow embedding of \<^verbatim>\<open>icone_shine/icon_shine_effect.py\<close> and
  \<^verbatim>\<open>year_scroll/year_scroll.py\<close>. Python floats and numpy float arrays are
  modelled as reals (rounding of the binary formats is not represented), Python integers
  as \<open>int\<close>, array sizes and indices as \<open>nat\<close>, and \<^verbatim>\<open>uint8\<close> samples as
  \<open>8 word\<close>. The module-level constants of each script are collected in a
  configuration record, with the values of the source as the default configuration.
  An array is a function from indices to samples together with its shape; an array
  expression of numpy is the same expression on every sample. What the libraries do
  outside the scripts (decoding the image, the colour-space conversions, the Gaussian
  blur, text rendering, the encoder) enters as a parameter.
\<close>

subsection \<open>Scalars: easing and conversions\<close>

type_synonym uint8 = "8 word"

text \<open>\<^verbatim>\<open>ease_out_quad(t)\<close>: \<^verbatim>\<open>return 1 - (1 - t) * (1 - t)\<close>.\<close>

definition ease_out_quad :: "real \<Rightarrow> real" where
  "ease_out_quad t = 1 - (1 - t) * (1 - t)"

text \<open>
  \<^verbatim>\<open>ease_in_out_cubic(t)\<close>: \<^verbatim>\<open>t *= 2\<close>; below 1 the result is
  \<^verbatim>\<open>0.5 * t * t * t\<close>; otherwise \<^verbatim>\<open>t -= 2\<close> and the result is
  \<^verbatim>\<open>0.5 * (t * t * t + 2)\<close>.
\<close>

definition ease_in_out_cubic :: "real \<Rightarrow> real" where
  "ease_in_out_cubic t0 =
     (let t = t0 * 2 in
      if t < 1 then 0.5 * t * t * t
      else (let t' = t - 2 in 0.5 * (t' * t' * t' + 2)))"

text \<open>Python's \<^verbatim>\<open>int(x)\<close> on a float truncates towards zero.\<close>

definition py_int :: "real \<Rightarrow> int" where
  "py_int x = (if 0 \<le> x then \<lfloor>x\<rfloor> else \<lceil>x\<rceil>)"

text \<open>
  Python's \<^verbatim>\<open>round(x)\<close> on a float rounds to the nearest integer, a tie to
  the even neighbour.
\<close>

definition py_round :: "real \<Rightarrow> int" where
  "py_round x =
     (let f = \<lfloor>x\<rfloor>; d = x - of_int f in
      if d < 1/2 then f else if 1/2 < d then f + 1 else if even f then f else f + 1)"

text \<open>
  \<^verbatim>\<open>np.clip(v, 0, 255).astype(np.uint8)\<close>: the value is limited to the range
  and the cast drops the fraction. \<^verbatim>\<open>cast_uint8\<close> is the cast alone, as done by
  an assignment of a float array into a \<^verbatim>\<open>uint8\<close> array.
\<close>

definition cast_uint8 :: "real \<Rightarrow> uint8" where
  "cast_uint8 v = word_of_int (py_int v)"

definition to_uint8 :: "real \<Rightarrow> uint8" where
  "to_uint8 v = cast_uint8 (min (max v 0) 255)"

subsection \<open>Errors and arrays\<close>

text \<open>
  The ways a run stops early: the three diagnosed returns of
  \<^verbatim>\<open>create_shine_animation\<close>, the diagnosed exit of the scroll's
  \<^verbatim>\<open>main\<close>, and the Python exceptions the modelled statements can raise.
\<close>

datatype error =
    InputNotFound | ImageUnreadable | FFmpegNotFound | WriterNotOpened
  | IndexError | ValueError | ZeroDivisionError | CvError

text \<open>
  A three-dimensional \<^verbatim>\<open>uint8\<close> array of shape \<open>(height, width, nchan)\<close>;
  \<open>px a y x c\<close> is \<^verbatim>\<open>a[y, x, c]\<close>. A two-dimensional array is a \<open>plane\<close>.
\<close>

record image =
  height :: nat
  width :: nat
  nchan :: nat
  px :: "nat \<Rightarrow> nat \<Rightarrow> nat \<Rightarrow> uint8"

record plane =
  rows :: nat
  cols :: nat
  cell :: "nat \<Rightarrow> nat \<Rightarrow> uint8"

type_synonym frame = "nat \<Rightarrow> nat \<Rightarrow> nat \<Rightarrow> uint8"
type_synonym layer = "nat \<Rightarrow> nat \<Rightarrow> nat \<Rightarrow> real"

text \<open>
  What \<^verbatim>\<open>cv2.imread(path, cv2.IMREAD_UNCHANGED)\<close> hands back: \<^verbatim>\<open>None\<close>,
  a two-dimensional array for a grey image, or a three-dimensional one.
\<close>

datatype imread_result = ReadNone | ReadPlane plane | ReadImage image

subsection \<open>The shine sweep: \<^verbatim>\<open>icon_shine_effect.py\<close>\<close>

record sweep_config =
  TOTAL_DURATION :: real
  ANIM_START_TIME :: real
  ANIM_DURATION :: real
  FPS :: int
  SHINE_ANGLE_DEG :: real
  SHINE_WIDTH_FACTOR :: real

definition default_sweep_config :: sweep_config where
  "default_sweep_config =
     \<lparr>TOTAL_DURATION = 2.5, ANIM_START_TIME = 0.5, ANIM_DURATION = 1.0, FPS = 30,
      SHINE_ANGLE_DEG = - 60, SHINE_WIDTH_FACTOR = 0.25\<rparr>"

text \<open>
  Lines 51 to 54: an array with three channels gets a fourth one, set to 255
  (\<^verbatim>\<open>COLOR_BGR2BGRA\<close> keeps the three colour channels in place).
\<close>

definition add_alpha_channel :: "image \<Rightarrow> image" where
  "add_alpha_channel icon =
     (if nchan icon = 3
      then icon\<lparr>nchan := 4, px := (\<lambda>y x c. if c = 3 then 255 else px icon y x c)\<rparr>
      else icon)"

text \<open>Lines 61 to 64 and 71: the float layers.\<close>

definition icon_bgr_float :: "image \<Rightarrow> layer" where
  "icon_bgr_float icon y x c = real (unat (px icon y x c)) / 255"

definition icon_alpha_float :: "image \<Rightarrow> nat \<Rightarrow> nat \<Rightarrow> real" where
  "icon_alpha_float icon y x = real (unat (px icon y x 3)) / 255"

definition base_image :: "image \<Rightarrow> layer" where
  "base_image icon y x c = icon_bgr_float icon y x c * icon_alpha_float icon y x"

text \<open>
  The shine layer \<^verbatim>\<open>shine_bgr_uint8\<close> is the icon with its lightness set to the
  maximum by two colour-space conversions of OpenCV; it is a parameter here.
\<close>

definition shine_bgr_float :: "frame \<Rightarrow> layer" where
  "shine_bgr_float shine_bgr_uint8 y x c = real (unat (shine_bgr_uint8 y x c)) / 255"

text \<open>Lines 75 to 89: the projection of every pixel on the sweep axis, and its extent.\<close>

definition radians :: "real \<Rightarrow> real" where
  "radians d = d * pi / 180"

definition sweep_angle_rad :: "sweep_config \<Rightarrow> real" where
  "sweep_angle_rad cfg = radians (SHINE_ANGLE_DEG cfg + 90)"

definition sweep_map :: "sweep_config \<Rightarrow> nat \<Rightarrow> nat \<Rightarrow> real" where
  "sweep_map cfg y x =
     real x * cos (sweep_angle_rad cfg) + real y * sin (sweep_angle_rad cfg)"

definition sweep_values :: "sweep_config \<Rightarrow> image \<Rightarrow> real list" where
  "sweep_values cfg icon =
     concat (map (\<lambda>y. map (\<lambda>x. sweep_map cfg y x) [0..<width icon]) [0..<height icon])"

definition shine_width_pixels :: "sweep_config \<Rightarrow> image \<Rightarrow> real" where
  "shine_width_pixels cfg icon = real (width icon) * SHINE_WIDTH_FACTOR cfg"

definition map_min :: "sweep_config \<Rightarrow> image \<Rightarrow> real" where
  "map_min cfg icon = Min (set (sweep_values cfg icon))"

definition map_max :: "sweep_config \<Rightarrow> image \<Rightarrow> real" where
  "map_max cfg icon = Max (set (sweep_values cfg icon))"

definition sweep_start_pos :: "sweep_config \<Rightarrow> image \<Rightarrow> real" where
  "sweep_start_pos cfg icon = map_min cfg icon - shine_width_pixels cfg icon"

definition sweep_end_pos :: "sweep_config \<Rightarrow> image \<Rightarrow> real" where
  "sweep_end_pos cfg icon = map_max cfg icon + shine_width_pixels cfg icon"

definition sweep_distance :: "sweep_config \<Rightarrow> image \<Rightarrow> real" where
  "sweep_distance cfg icon = sweep_end_pos cfg icon - sweep_start_pos cfg icon"

text \<open>Lines 116 to 118: the timeline in frames.\<close>

definition TOTAL_FRAMES :: "sweep_config \<Rightarrow> int" where
  "TOTAL_FRAMES cfg = py_int (TOTAL_DURATION cfg * of_int (FPS cfg))"

definition ANIM_START_FRAME :: "sweep_config \<Rightarrow> int" where
  "ANIM_START_FRAME cfg = py_int (ANIM_START_TIME cfg * of_int (FPS cfg))"

definition ANIM_END_FRAME :: "sweep_config \<Rightarrow> int" where
  "ANIM_END_FRAME cfg = ANIM_START_FRAME cfg + py_int (ANIM_DURATION cfg * of_int (FPS cfg))"

text \<open>Lines 123 to 143: the body of the loop for frame \<open>i\<close>.\<close>

definition progress :: "sweep_config \<Rightarrow> int \<Rightarrow> real" where
  "progress cfg i =
     of_int (i - ANIM_START_FRAME cfg) / of_int (ANIM_END_FRAME cfg - ANIM_START_FRAME cfg)"

definition current_pos :: "sweep_config \<Rightarrow> image \<Rightarrow> real \<Rightarrow> real" where
  "current_pos cfg icon eased_progress =
     sweep_start_pos cfg icon + eased_progress * sweep_distance cfg icon"

definition gauss_mask :: "sweep_config \<Rightarrow> image \<Rightarrow> real \<Rightarrow> nat \<Rightarrow> nat \<Rightarrow> real" where
  "gauss_mask cfg icon pos y x =
     (let dist_from_center = sweep_map cfg y x - pos in
      exp (- ((dist_from_center / (shine_width_pixels cfg icon / 2.5)) ^ 2)))"

definition shine_alpha :: "sweep_config \<Rightarrow> image \<Rightarrow> int \<Rightarrow> nat \<Rightarrow> nat \<Rightarrow> real" where
  "shine_alpha cfg icon i y x =
     gauss_mask cfg icon (current_pos cfg icon (ease_out_quad (progress cfg i))) y x
       * icon_alpha_float icon y x"

text \<open>
  Line 140, the expression
  \<^verbatim>\<open>(shine_bgr_float * shine_alpha_3c) + (base_image * (1 - shine_alpha_3c))\<close>
  with the alpha plane repeated over the three channels.
\<close>

definition composite_shine :: "layer \<Rightarrow> layer \<Rightarrow> (nat \<Rightarrow> nat \<Rightarrow> real) \<Rightarrow> layer" where
  "composite_shine shine base alpha y x c =
     shine y x c * alpha y x + base y x c * (1 - alpha y x)"

definition final_frame_float :: "sweep_config \<Rightarrow> image \<Rightarrow> frame \<Rightarrow> int \<Rightarrow> layer" where
  "final_frame_float cfg icon shine_bgr_uint8 i =
     (if ANIM_START_FRAME cfg \<le> i \<and> i < ANIM_END_FRAME cfg
      then composite_shine (shine_bgr_float shine_bgr_uint8) (base_image icon)
             (shine_alpha cfg icon i)
      else base_image icon)"

definition final_frame_uint8 :: "sweep_config \<Rightarrow> image \<Rightarrow> frame \<Rightarrow> int \<Rightarrow> frame" where
  "final_frame_uint8 cfg icon shine_bgr_uint8 i y x c =
     to_uint8 (final_frame_float cfg icon shine_bgr_uint8 i y x c * 255)"

text \<open>
  \<^verbatim>\<open>create_shine_animation\<close>: the frames written to the encoder's pipe, in
  order, or the reason why none is. \<open>path_exists\<close> is the answer of
  \<^verbatim>\<open>os.path.exists\<close>, \<open>loaded\<close> that of \<^verbatim>\<open>cv2.imread\<close>, and
  \<open>ffmpeg_found\<close> tells whether the encoder process could be started. A grey image
  has no \<^verbatim>\<open>shape[2]\<close>; an array with fewer than four channels has no
  \<^verbatim>\<open>icon[:, :, 3]\<close>; OpenCV's colour conversion of line 68 rejects an
  empty array, so the minimum and maximum of the sweep map are taken over a grid that is
  not empty.
\<close>

definition create_shine_animation ::
  "sweep_config \<Rightarrow> bool \<Rightarrow> imread_result \<Rightarrow> frame \<Rightarrow> bool \<Rightarrow> error + frame list" where
  "create_shine_animation cfg path_exists loaded shine_bgr_uint8 ffmpeg_found =
     (if \<not> path_exists then Inl InputNotFound
      else case loaded of
        ReadNone \<Rightarrow> Inl ImageUnreadable
      | ReadPlane p \<Rightarrow> Inl IndexError
      | ReadImage icon0 \<Rightarrow>
          (let icon = add_alpha_channel icon0 in
           if nchan icon < 4 then Inl IndexError
           else if height icon = 0 \<or> width icon = 0 then Inl CvError
           else if \<not> ffmpeg_found then Inl FFmpegNotFound
           else Inr (map (final_frame_uint8 cfg icon shine_bgr_uint8)
                       [0..TOTAL_FRAMES cfg - 1])))"

subsection \<open>The year scroll: \<^verbatim>\<open>year_scroll.py\<close>\<close>

text \<open>
  Font loading, text layout and rasterisation are done by Pillow; the rendered text block
  \<^verbatim>\<open>full_text_bgra_cv\<close> and the two heights measured on it are parameters
  of the model, as are OpenCV's blur and the state of the video writer.
\<close>

record scroll_config =
  ANIMATION_DURATION_SECONDS :: real
  ASPECT_RATIO_W :: int
  ASPECT_RATIO_H :: int
  FRAME_WIDTH :: nat
  FPS_scroll :: int
  BACKGROUND_COLOR_CV :: "uint8 \<times> uint8 \<times> uint8"
  MASK_VISIBLE_HEIGHT_FACTOR :: real
  FEATHER_AMOUNT_PIXELS :: int

definition default_scroll_config :: scroll_config where
  "default_scroll_config =
     \<lparr>ANIMATION_DURATION_SECONDS = 2.0, ASPECT_RATIO_W = 16, ASPECT_RATIO_H = 9,
      FRAME_WIDTH = 1280, FPS_scroll = 30, BACKGROUND_COLOR_CV = (0, 0, 0),
      MASK_VISIBLE_HEIGHT_FACTOR = 0.20, FEATHER_AMOUNT_PIXELS = 50\<rparr>"

definition FRAME_HEIGHT :: "scroll_config \<Rightarrow> int" where
  "FRAME_HEIGHT cfg =
     py_int (real (FRAME_WIDTH cfg)
       * (of_int (ASPECT_RATIO_H cfg) / of_int (ASPECT_RATIO_W cfg)))"

text \<open>
  \<^verbatim>\<open>cv2.rectangle(img, pt1, pt2, color, -1)\<close> of OpenCV: the filled rectangle
  with the two points as opposite corners, both corners included, clipped to the array.
  Points are \<open>(x, y)\<close>.
\<close>

definition cv2_rectangle :: "plane \<Rightarrow> int \<times> int \<Rightarrow> int \<times> int \<Rightarrow> uint8 \<Rightarrow> plane" where
  "cv2_rectangle img pt1 pt2 colour =
     img\<lparr>cell := (\<lambda>y x.
        if min (fst pt1) (fst pt2) \<le> int x \<and> int x \<le> max (fst pt1) (fst pt2)
           \<and> min (snd pt1) (snd pt2) \<le> int y \<and> int y \<le> max (snd pt1) (snd pt2)
        then colour else cell img y x)\<rparr>"

text \<open>
  \<^verbatim>\<open>create_feathered_mask\<close>, in two steps: the strip drawn on a zero plane
  (lines 121 to 125), then the blur (lines 126 to 128). \<^verbatim>\<open>cv2.GaussianBlur\<close>
  is the parameter \<open>GaussianBlur\<close>; it rejects a kernel size that is not positive.
\<close>

definition strip_mask :: "nat \<Rightarrow> nat \<Rightarrow> int \<Rightarrow> plane" where
  "strip_mask frame_w frame_h visible_strip_h =
     (let mask = \<lparr>rows = frame_h, cols = frame_w, cell = (\<lambda>y x. 0)\<rparr>;
          center_y = int frame_h div 2;
          strip_top = center_y - visible_strip_h div 2;
          strip_bottom = center_y + visible_strip_h div 2
      in cv2_rectangle mask (0, strip_top) (int frame_w, strip_bottom) 255)"

definition create_feathered_mask ::
  "(plane \<Rightarrow> int \<times> int \<Rightarrow> real \<Rightarrow> plane) \<Rightarrow> nat \<Rightarrow> nat \<Rightarrow> int \<Rightarrow> int \<Rightarrow> error + plane" where
  "create_feathered_mask GaussianBlur frame_w frame_h visible_strip_h feather_px =
     (let mask = strip_mask frame_w frame_h visible_strip_h;
          blur_ksize = feather_px * 2 + 1
      in if blur_ksize \<le> 0 then Inl CvError
         else Inr (GaussianBlur mask (blur_ksize, blur_ksize) 0))"

text \<open>The rows of a mask that hold 255 in their first column.\<close>

definition strip_rows :: "plane \<Rightarrow> nat list" where
  "strip_rows m = filter (\<lambda>y. cell m y 0 = 255) [0..<rows m]"

text \<open>Lines 181 to 186 and 201 to 209: offsets, frame count, progress, position.\<close>

definition padding :: int where
  "padding = 20"

definition video_center_y :: "scroll_config \<Rightarrow> real" where
  "video_center_y cfg = of_int (FRAME_HEIGHT cfg) / 2"

definition start_scroll_y_offset_pil_top :: "scroll_config \<Rightarrow> int \<Rightarrow> real" where
  "start_scroll_y_offset_pil_top cfg s_actual_h =
     video_center_y cfg - (of_int padding + of_int s_actual_h / 2)"

definition end_scroll_y_offset_pil_top :: "scroll_config \<Rightarrow> int \<Rightarrow> int \<Rightarrow> real" where
  "end_scroll_y_offset_pil_top cfg s_actual_h text_block_rendered_height =
     video_center_y cfg
       - (of_int padding + of_int text_block_rendered_height - of_int s_actual_h / 2)"

definition mask_visible_actual_h :: "scroll_config \<Rightarrow> int" where
  "mask_visible_actual_h cfg =
     py_int (of_int (FRAME_HEIGHT cfg) * MASK_VISIBLE_HEIGHT_FACTOR cfg)"

definition num_total_frames :: "scroll_config \<Rightarrow> int" where
  "num_total_frames cfg =
     py_int (ANIMATION_DURATION_SECONDS cfg * of_int (FPS_scroll cfg))"

definition scroll_progress :: "int \<Rightarrow> int \<Rightarrow> real" where
  "scroll_progress n frame_idx = (if 1 < n then of_int frame_idx / of_int (n - 1) else 0)"

definition current_y_pil_top :: "real \<Rightarrow> real \<Rightarrow> int \<Rightarrow> int \<Rightarrow> int" where
  "current_y_pil_top start_y end_y n frame_idx =
     py_round (start_y + (end_y - start_y) * ease_in_out_cubic (scroll_progress n frame_idx))"

text \<open>Lines 214 to 238: the destination and source rectangles, clipped.\<close>

record paste_rect =
  eff_dst_y1 :: int
  eff_dst_y2 :: int
  eff_src_y1_text_img :: int
  eff_src_y2_text_img :: int
  eff_dst_x1 :: int
  eff_dst_x2 :: int
  eff_src_x1_text_img :: int
  eff_src_x2_text_img :: int

definition clip_rects :: "nat \<Rightarrow> nat \<Rightarrow> nat \<Rightarrow> nat \<Rightarrow> int \<Rightarrow> paste_rect" where
  "clip_rects frame_h frame_w text_img_h text_img_w y_top =
     (let dst_x_offset_canvas = (int frame_w - int text_img_w) div 2;
          src_y1_text_img = 0;
          src_y2_text_img = int text_img_h;
          dst_y1_canvas = y_top;
          dst_y2_canvas = y_top + int text_img_h;
          e_dst_y1 = max 0 dst_y1_canvas;
          e_dst_y2 = min (int frame_h) dst_y2_canvas;
          e_src_y1 = src_y1_text_img + (e_dst_y1 - dst_y1_canvas);
          e_src_y2 = src_y2_text_img - (dst_y2_canvas - e_dst_y2);
          src_x1_text_img = 0;
          src_x2_text_img = int text_img_w;
          dst_x1_canvas = dst_x_offset_canvas;
          dst_x2_canvas = dst_x_offset_canvas + int text_img_w;
          e_dst_x1 = max 0 dst_x1_canvas;
          e_dst_x2 = min (int frame_w) dst_x2_canvas;
          e_src_x1 = src_x1_text_img + (e_dst_x1 - dst_x1_canvas);
          e_src_x2 = src_x2_text_img - (dst_x2_canvas - e_dst_x2)
      in \<lparr>eff_dst_y1 = e_dst_y1, eff_dst_y2 = e_dst_y2,
          eff_src_y1_text_img = e_src_y1, eff_src_y2_text_img = e_src_y2,
          eff_dst_x1 = e_dst_x1, eff_dst_x2 = e_dst_x2,
          eff_src_x1_text_img = e_src_x1, eff_src_x2_text_img = e_src_x2\<rparr>)"

text \<open>Lines 240 and 241: the condition under which anything is pasted.\<close>

definition paste_guard :: "paste_rect \<Rightarrow> bool" where
  "paste_guard r \<longleftrightarrow>
     eff_dst_y2 r > eff_dst_y1 r \<and> eff_dst_x2 r > eff_dst_x1 r
     \<and> eff_src_y2_text_img r > eff_src_y1_text_img r
     \<and> eff_src_x2_text_img r > eff_src_x1_text_img r"

text \<open>
  A numpy slice \<^verbatim>\<open>a:b\<close> along an axis of length \<open>n\<close>: a negative bound counts
  from the end, every bound is then limited to \<open>0..n\<close>, and the slice is empty when
  the bounds cross. The result is the first index and the number of indices.
\<close>

definition slice_bound :: "nat \<Rightarrow> int \<Rightarrow> nat" where
  "slice_bound n i = (if i < 0 then nat (max 0 (i + int n)) else min n (nat i))"

definition np_slice :: "nat \<Rightarrow> int \<Rightarrow> int \<Rightarrow> nat \<times> nat" where
  "np_slice n a b =
     (let s = slice_bound n a; e = slice_bound n b in (s, if e < s then 0 else e - s))"

text \<open>
  Lines 212 and 240 to 245: the transparent canvas, and the slice of the text block
  assigned into a slice of the canvas. numpy raises \<^verbatim>\<open>ValueError\<close> when the
  shape of the source cannot be broadcast to the shape of the destination: along every
  axis the sizes must agree or the source's size must be 1.
\<close>

definition place_text :: "nat \<Rightarrow> nat \<Rightarrow> image \<Rightarrow> int \<Rightarrow> error + frame" where
  "place_text frame_h frame_w full_text_bgra_cv y_top =
     (let r = clip_rects frame_h frame_w (height full_text_bgra_cv)
                (width full_text_bgra_cv) y_top
      in if paste_guard r then
           (let (sy, sh) = np_slice (height full_text_bgra_cv)
                             (eff_src_y1_text_img r) (eff_src_y2_text_img r);
                (sx, sw) = np_slice (width full_text_bgra_cv)
                             (eff_src_x1_text_img r) (eff_src_x2_text_img r);
                (dy, dh) = np_slice frame_h (eff_dst_y1 r) (eff_dst_y2 r);
                (dx, dw) = np_slice frame_w (eff_dst_x1 r) (eff_dst_x2 r);
                sc = nchan full_text_bgra_cv
            in if 0 < sh * sw * sc then
                 (if (sh = dh \<or> sh = 1) \<and> (sw = dw \<or> sw = 1) \<and> (sc = 4 \<or> sc = 1)
                  then Inr (\<lambda>y x c.
                         if dy \<le> y \<and> y < dy + dh \<and> dx \<le> x \<and> x < dx + dw \<and> c < 4
                         then px full_text_bgra_cv
                                (sy + (if sh = 1 then 0 else y - dy))
                                (sx + (if sw = 1 then 0 else x - dx))
                                (if sc = 1 then 0 else c)
                         else 0)
                  else Inl ValueError)
               else Inr (\<lambda>y x c. 0))
         else Inr (\<lambda>y x c. 0))"

text \<open>Lines 211 and 247 to 256: the blend of the canvas over the background.\<close>

definition background :: "scroll_config \<Rightarrow> frame" where
  "background cfg y x c =
     (case BACKGROUND_COLOR_CV cfg of (b, g, r) \<Rightarrow> if c = 0 then b else if c = 1 then g else r)"

definition scrolled_alpha :: "frame \<Rightarrow> nat \<Rightarrow> nat \<Rightarrow> real" where
  "scrolled_alpha canvas y x = real (unat (canvas y x 3)) / 255"

definition feathered_mask_normalized :: "plane \<Rightarrow> nat \<Rightarrow> nat \<Rightarrow> real" where
  "feathered_mask_normalized feathered_mask_cv y x = real (unat (cell feathered_mask_cv y x)) / 255"

definition combined_alpha :: "frame \<Rightarrow> plane \<Rightarrow> nat \<Rightarrow> nat \<Rightarrow> real" where
  "combined_alpha canvas feathered_mask_cv y x =
     scrolled_alpha canvas y x * feathered_mask_normalized feathered_mask_cv y x"

definition composite_scroll :: "frame \<Rightarrow> frame \<Rightarrow> (nat \<Rightarrow> nat \<Rightarrow> real) \<Rightarrow> frame" where
  "composite_scroll final_frame_bgr scrolled alpha y x c =
     cast_uint8 (real (unat (final_frame_bgr y x c)) * (1 - alpha y x)
                 + real (unat (scrolled y x c)) * alpha y x)"

definition render_frame :: "scroll_config \<Rightarrow> plane \<Rightarrow> image \<Rightarrow> int \<Rightarrow> error + frame" where
  "render_frame cfg feathered_mask_cv full_text_bgra_cv y_top =
     (case place_text (nat (FRAME_HEIGHT cfg)) (FRAME_WIDTH cfg) full_text_bgra_cv y_top of
        Inl e \<Rightarrow> Inl e
      | Inr canvas \<Rightarrow>
          Inr (composite_scroll (background cfg) canvas
                 (combined_alpha canvas feathered_mask_cv)))"

text \<open>
  One turn of the loop of \<^verbatim>\<open>main\<close>: the frame is rendered and written, then
  \<^verbatim>\<open>frame_idx % (FPS // 2)\<close> is evaluated, which raises when \<^verbatim>\<open>FPS // 2\<close>
  is 0.
\<close>

definition loop_body ::
  "scroll_config \<Rightarrow> plane \<Rightarrow> image \<Rightarrow> real \<Rightarrow> real \<Rightarrow> int \<Rightarrow> error + frame" where
  "loop_body cfg feathered_mask_cv full_text_bgra_cv start_y end_y frame_idx =
     (case render_frame cfg feathered_mask_cv full_text_bgra_cv
             (current_y_pil_top start_y end_y (num_total_frames cfg) frame_idx) of
        Inl e \<Rightarrow> Inl e
      | Inr f \<Rightarrow> if FPS_scroll cfg div 2 = 0 then Inl ZeroDivisionError else Inr f)"

fun collect :: "(error + 'a) list \<Rightarrow> error + 'a list" where
  "collect [] = Inr []"
| "collect (Inl e # rs) = Inl e"
| "collect (Inr v # rs) = (case collect rs of Inl e \<Rightarrow> Inl e | Inr vs \<Rightarrow> Inr (v # vs))"

text \<open>
  \<^verbatim>\<open>main\<close> from line 181 on: the frames handed to the video writer, in order,
  or the first failure. The frame height is computed when the module is loaded, which
  divides by \<^verbatim>\<open>ASPECT_RATIO_W\<close>; numpy refuses a negative array size.
\<close>

definition scroll_main ::
  "scroll_config \<Rightarrow> (plane \<Rightarrow> int \<times> int \<Rightarrow> real \<Rightarrow> plane) \<Rightarrow> image \<Rightarrow> int \<Rightarrow> int \<Rightarrow> bool
     \<Rightarrow> error + frame list" where
  "scroll_main cfg GaussianBlur full_text_bgra_cv s_actual_h text_block_rendered_height
       writer_opened =
     (if ASPECT_RATIO_W cfg = 0 then Inl ZeroDivisionError
      else if FRAME_HEIGHT cfg < 0 then Inl ValueError
      else
        case create_feathered_mask GaussianBlur (FRAME_WIDTH cfg) (nat (FRAME_HEIGHT cfg))
               (mask_visible_actual_h cfg) (FEATHER_AMOUNT_PIXELS cfg) of
          Inl e \<Rightarrow> Inl e
        | Inr feathered_mask_cv \<Rightarrow>
            if \<not> writer_opened then Inl WriterNotOpened
            else collect (map (loop_body cfg feathered_mask_cv full_text_bgra_cv
                                 (start_scroll_y_offset_pil_top cfg s_actual_h)
                                 (end_scroll_y_offset_pil_top cfg s_actual_h
                                    text_block_rendered_height))
                            [0..num_total_frames cfg - 1]))"

subsection \<open>Notions used by the properties\<close>

text \<open>The canvas positions covered by the clipped destination rectangle.\<close>

definition in_dst :: "paste_rect \<Rightarrow> nat \<Rightarrow> nat \<Rightarrow> bool" where
  "in_dst r row col \<longleftrightarrow>
     eff_dst_y1 r \<le> int row \<and> int row < eff_dst_y2 r
     \<and> eff_dst_x1 r \<le> int col \<and> int col < eff_dst_x2 r"

text \<open>A small text block, for concrete runs.\<close>

definition text0 :: image where
  "text0 = \<lparr>height = 2, width = 2, nchan = 4, px = (\<lambda>y x c. if y = 1 then 200 else 100)\<rparr>"

text \<open>The frame that \<open>render_frame\<close> yields when the placement succeeds.\<close>

definition the_frame :: "scroll_config \<Rightarrow> plane \<Rightarrow> image \<Rightarrow> int \<Rightarrow> frame" where
  "the_frame cfg m txt y =
     (let canvas = projr (place_text (nat (FRAME_HEIGHT cfg)) (FRAME_WIDTH cfg) txt y)
      in composite_scroll (background cfg) canvas (combined_alpha canvas m))"

text \<open>
  Concrete inputs for runs: a one-pixel opaque icon, a white shine layer, and the default
  sweep with a total duration of 2.625 seconds.
\<close>

definition icon1 :: image where
  "icon1 = \<lparr>height = 1, width = 1, nchan = 4, px = (\<lambda>y x c. if c = 3 then 255 else 51)\<rparr>"

definition white :: frame where
  "white = (\<lambda>y x c. 255)"

definition fractional_sweep_config :: sweep_config where
  "fractional_sweep_config = default_sweep_config\<lparr>TOTAL_DURATION := 2.625\<rparr>"

text \<open>A one-pixel icon without alpha channel.\<close>

definition icon3 :: image where
  "icon3 = \<lparr>height = 1, width = 1, nchan = 3, px = (\<lambda>y x c. 51)\<rparr>"

text \<open>
  The static base composite in the words of the specification: every colour sample of
  the icon, normalised, multiplied by the icon's normalised alpha, and converted to 8 bits.
\<close>

definition static_base_frame :: "image \<Rightarrow> frame" where
  "static_base_frame icon y x c =
     to_uint8 (real (unat (px icon y x c)) / 255 * (real (unat (px icon y x 3)) / 255) * 255)"

section \<open>Properties\<close>

lemma cube_mono: "(a::real) \<le> b \<Longrightarrow> a * a * a \<le> b * b * b"
proof -
  assume "a \<le> b"
  then have "a ^ 3 \<le> b ^ 3" by (rule power_mono_odd [rotated]) simp
  then show ?thesis by (simp add: power3_eq_cube)
qed

lemma ease_out_quad_mono:
  assumes "s \<le> t" "t \<le> 1"
  shows "ease_out_quad s \<le> ease_out_quad t"
proof -
  have "0 \<le> 1 - t" "1 - t \<le> 1 - s" using assms by simp_all
  then have "(1 - t) * (1 - t) \<le> (1 - s) * (1 - s)"
    by (intro mult_mono) simp_all
  then show ?thesis by (simp add: ease_out_quad_def)
qed

lemma ease_out_quad_range:
  assumes "0 \<le> t" "t \<le> 1"
  shows "0 \<le> ease_out_quad t \<and> ease_out_quad t \<le> 1"
proof -
  have "ease_out_quad 0 \<le> ease_out_quad t" "ease_out_quad t \<le> ease_out_quad 1"
    using assms by (simp_all add: ease_out_quad_mono)
  then show ?thesis by (simp add: ease_out_quad_def)
qed

lemma ease_in_out_cubic_mono:
  assumes "0 \<le> s" "s \<le> t" "t \<le> 1"
  shows "ease_in_out_cubic s \<le> ease_in_out_cubic t"
proof -
  consider "t * 2 < 1" | "s * 2 < 1" "1 \<le> t * 2" | "1 \<le> s * 2" by linarith
  then show ?thesis
  proof cases
    case 1
    then have "s * 2 < 1" using assms by simp
    moreover have "(s * 2) * (s * 2) * (s * 2) \<le> (t * 2) * (t * 2) * (t * 2)"
      using assms by (intro cube_mono) simp
    ultimately show ?thesis using 1 by (simp add: ease_in_out_cubic_def Let_def)
  next
    case 2
    have "(s * 2) * (s * 2) * (s * 2) \<le> 1 * 1 * (1::real)"
      using 2 by (intro cube_mono) simp
    moreover have "(- 1) * (- 1) * (- 1) \<le> (t * 2 - 2) * (t * 2 - 2) * (t * 2 - 2)"
      using 2 by (intro cube_mono) simp
    ultimately show ?thesis using 2 by (simp add: ease_in_out_cubic_def Let_def)
  next
    case 3
    then have "1 \<le> t * 2" using assms by simp
    moreover have "(s * 2 - 2) * (s * 2 - 2) * (s * 2 - 2) \<le> (t * 2 - 2) * (t * 2 - 2) * (t * 2 - 2)"
      using assms by (intro cube_mono) simp
    ultimately show ?thesis using 3 by (simp add: ease_in_out_cubic_def Let_def)
  qed
qed

lemma ease_in_out_cubic_ends: "ease_in_out_cubic 0 = 0 \<and> ease_in_out_cubic 1 = 1"
  by (simp add: ease_in_out_cubic_def Let_def)

lemma ease_in_out_cubic_range:
  assumes "0 \<le> t" "t \<le> 1"
  shows "0 \<le> ease_in_out_cubic t \<and> ease_in_out_cubic t \<le> 1"
proof -
  have "ease_in_out_cubic 0 \<le> ease_in_out_cubic t" "ease_in_out_cubic t \<le> ease_in_out_cubic 1"
    using assms by (simp_all add: ease_in_out_cubic_mono)
  then show ?thesis by (simp add: ease_in_out_cubic_ends)
qed

text \<open>
  Claim C5. For every \<open>t\<close> in \<open>[0,1]\<close> both easing functions, \<open>ease_out_quad\<close> and
  \<open>ease_in_out_cubic\<close>, return a value in \<open>[0,1]\<close>; they return exactly 0 at 0 and
  exactly 1 at 1; and they are monotonic non-decreasing on \<open>[0,1]\<close>: for
  \<open>0 \<le> s \<le> t \<le> 1\<close> the value at \<open>s\<close> is at most the value at \<open>t\<close>.
\<close>

theorem easing_contract:
  assumes "0 \<le> s" "s \<le> t" "t \<le> 1"
  shows "0 \<le> ease_out_quad t \<and> ease_out_quad t \<le> 1
       \<and> 0 \<le> ease_in_out_cubic t \<and> ease_in_out_cubic t \<le> 1
       \<and> ease_out_quad 0 = 0 \<and> ease_out_quad 1 = 1
       \<and> ease_in_out_cubic 0 = 0 \<and> ease_in_out_cubic 1 = 1
       \<and> ease_out_quad s \<le> ease_out_quad t
       \<and> ease_in_out_cubic s \<le> ease_in_out_cubic t"
proof -
  have t0: "0 \<le> t" using assms by simp
  have "ease_out_quad 0 = 0" "ease_out_quad 1 = 1" by (simp_all add: ease_out_quad_def)
  then show ?thesis
    using ease_out_quad_range [OF t0 assms(3)] ease_in_out_cubic_range [OF t0 assms(3)]
      ease_in_out_cubic_ends ease_out_quad_mono [OF assms(2,3)]
      ease_in_out_cubic_mono [OF assms]
    by simp
qed

theorem easing_contract_witness:
  "(0::real) \<le> 1/4 \<and> (1/4::real) \<le> 3/4 \<and> (3/4::real) \<le> 1
   \<and> ease_out_quad (3/4) = 15/16 \<and> ease_in_out_cubic (3/4) = 15/16
   \<and> ease_out_quad (1/4) \<le> ease_out_quad (3/4)
   \<and> ease_in_out_cubic (1/4) \<le> ease_in_out_cubic (3/4)"
  using easing_contract [of "1/4" "3/4"]
  by (simp add: ease_out_quad_def ease_in_out_cubic_def Let_def)

subsection \<open>The text block pasted on the canvas\<close>

lemma np_slice_in_bounds:
  assumes "0 \<le> a" "a \<le> b" "b \<le> int n"
  shows "np_slice n a b = (nat a, nat (b - a))"
  using assms by (auto simp: np_slice_def slice_bound_def Let_def)

lemma clip_rects_sel:
  "eff_dst_y1 (clip_rects fh fw th tw y) = max 0 y"
  "eff_dst_y2 (clip_rects fh fw th tw y) = min (int fh) (y + int th)"
  "eff_src_y1_text_img (clip_rects fh fw th tw y) = max 0 y - y"
  "eff_src_y2_text_img (clip_rects fh fw th tw y) = min (int fh) (y + int th) - y"
  "eff_dst_x1 (clip_rects fh fw th tw y) = max 0 ((int fw - int tw) div 2)"
  "eff_dst_x2 (clip_rects fh fw th tw y) = min (int fw) ((int fw - int tw) div 2 + int tw)"
  "eff_src_x1_text_img (clip_rects fh fw th tw y)
     = max 0 ((int fw - int tw) div 2) - (int fw - int tw) div 2"
  "eff_src_x2_text_img (clip_rects fh fw th tw y)
     = min (int fw) ((int fw - int tw) div 2 + int tw) - (int fw - int tw) div 2"
  by (simp_all add: clip_rects_def Let_def)

lemma place_text_no_paste:
  assumes "\<not> paste_guard (clip_rects fh fw (height txt) (width txt) y)"
  shows "place_text fh fw txt y = Inr (\<lambda>y x c. 0)"
  using assms by (simp add: place_text_def Let_def)

lemma place_text_paste:
  assumes g: "paste_guard (clip_rects fh fw (height txt) (width txt) y)" and c4: "nchan txt = 4"
  shows "place_text fh fw txt y =
      Inr (\<lambda>row col c.
        if in_dst (clip_rects fh fw (height txt) (width txt) y) row col \<and> c < 4
        then px txt (nat (int row - y)) (nat (int col - (int fw - int (width txt)) div 2)) c
        else 0)"
proof -
  define r where "r = clip_rects fh fw (height txt) (width txt) y"
  define off where "off = (int fw - int (width txt)) div 2"
  define d1 where "d1 = eff_dst_y1 r"
  define d2 where "d2 = eff_dst_y2 r"
  define e1 where "e1 = eff_dst_x1 r"
  define e2 where "e2 = eff_dst_x2 r"
  have sel: "eff_src_y1_text_img r = d1 - y" "eff_src_y2_text_img r = d2 - y"
      "eff_src_x1_text_img r = e1 - off" "eff_src_x2_text_img r = e2 - off"
    by (simp_all add: r_def d1_def d2_def e1_def e2_def off_def clip_rects_sel)
  have bnd: "0 \<le> d1" "d1 < d2" "d2 \<le> int fh" "0 \<le> e1" "e1 < e2" "e2 \<le> int fw"
      "y \<le> d1" "d2 \<le> y + int (height txt)" "off \<le> e1" "e2 \<le> off + int (width txt)"
    using g by (simp_all add: paste_guard_def r_def d1_def d2_def e1_def e2_def off_def
        clip_rects_sel)
  have sy: "np_slice (height txt) (d1 - y) (d2 - y) = (nat (d1 - y), nat (d2 - d1))"
    using bnd by (subst np_slice_in_bounds) simp_all
  have sx: "np_slice (width txt) (e1 - off) (e2 - off) = (nat (e1 - off), nat (e2 - e1))"
    using bnd by (subst np_slice_in_bounds) simp_all
  have dy: "np_slice fh d1 d2 = (nat d1, nat (d2 - d1))"
    using bnd by (subst np_slice_in_bounds) simp_all
  have dx: "np_slice fw e1 e2 = (nat e1, nat (e2 - e1))"
    using bnd by (subst np_slice_in_bounds) simp_all
  have size: "0 < nat (d2 - d1) * nat (e2 - e1) * 4"
    using bnd by simp
  have step: "place_text fh fw txt y = Inr (\<lambda>row col c.
      if nat d1 \<le> row \<and> row < nat d1 + nat (d2 - d1)
         \<and> nat e1 \<le> col \<and> col < nat e1 + nat (e2 - e1) \<and> c < 4
      then px txt (nat (d1 - y) + (if nat (d2 - d1) = 1 then 0 else row - nat d1))
             (nat (e1 - off) + (if nat (e2 - e1) = 1 then 0 else col - nat e1))
             (if (4::nat) = 1 then 0 else c)
      else 0)"
    unfolding place_text_def r_def [symmetric] Let_def
    using g size
    by (simp only: r_def [symmetric] if_True sel d1_def [symmetric] d2_def [symmetric]
        e1_def [symmetric] e2_def [symmetric] sy sx dy dx c4 prod.case simp_thms)
  have pt: "(if nat d1 \<le> row \<and> row < nat d1 + nat (d2 - d1)
         \<and> nat e1 \<le> col \<and> col < nat e1 + nat (e2 - e1) \<and> c < 4
      then px txt (nat (d1 - y) + (if nat (d2 - d1) = 1 then 0 else row - nat d1))
             (nat (e1 - off) + (if nat (e2 - e1) = 1 then 0 else col - nat e1))
             (if (4::nat) = 1 then 0 else c)
      else 0)
    = (if in_dst r row col \<and> c < 4
        then px txt (nat (int row - y)) (nat (int col - off)) c else 0)" for row col c
  proof (cases "in_dst r row col")
    case True
    then have io: "d1 \<le> int row" "int row < d2" "e1 \<le> int col" "int col < e2"
      by (simp_all add: in_dst_def d1_def d2_def e1_def e2_def)
    have a: "nat d1 \<le> row \<and> row < nat d1 + nat (d2 - d1)
         \<and> nat e1 \<le> col \<and> col < nat e1 + nat (e2 - e1)"
      using io bnd by linarith
    have b: "nat (d1 - y) + (if nat (d2 - d1) = 1 then 0 else row - nat d1) = nat (int row - y)"
      using io bnd by (cases "nat (d2 - d1) = 1") simp_all
    have c: "nat (e1 - off) + (if nat (e2 - e1) = 1 then 0 else col - nat e1) = nat (int col - off)"
      using io bnd by (cases "nat (e2 - e1) = 1") simp_all
    show ?thesis using True a by (simp only: b c) simp
  next
    case False
    then have "\<not> (nat d1 \<le> row \<and> row < nat d1 + nat (d2 - d1)
         \<and> nat e1 \<le> col \<and> col < nat e1 + nat (e2 - e1))"
      using bnd unfolding in_dst_def d1_def [symmetric] d2_def [symmetric]
        e1_def [symmetric] e2_def [symmetric] by linarith
    then have n: "(nat d1 \<le> row \<and> row < nat d1 + nat (d2 - d1)
         \<and> nat e1 \<le> col \<and> col < nat e1 + nat (e2 - e1) \<and> c < 4) = False"
      by blast
    show ?thesis unfolding n using False by simp
  qed
  show ?thesis
    unfolding step r_def [symmetric] off_def [symmetric] by (simp only: pt)
qed


text \<open>
  Claim C10, as amended. In the per-frame text placement of the scroll effect, for every integer
  vertical offset \<open>y\<close> of the text block (also one that puts the block partly or wholly
  outside the frame): the clipped source and destination rectangles have the same height
  and the same width; whenever the guard of the paste holds, both rectangles are not
  empty and lie inside their arrays; the placement never fails, with or without a paste;
  every canvas sample outside the pasted region is 0 in all four channels (the whole
  canvas when nothing is pasted), and the pasted region holds the text block's samples.
  The text block has four channels, as \<^verbatim>\<open>COLOR_RGBA2BGRA\<close> produces.
\<close>

theorem text_paste_well_defined:
  assumes "nchan txt = 4"
  shows "let r = clip_rects fh fw (height txt) (width txt) y in
     eff_src_y2_text_img r - eff_src_y1_text_img r = eff_dst_y2 r - eff_dst_y1 r
   \<and> eff_src_x2_text_img r - eff_src_x1_text_img r = eff_dst_x2 r - eff_dst_x1 r
   \<and> (paste_guard r \<longrightarrow>
         0 \<le> eff_dst_y1 r \<and> eff_dst_y1 r < eff_dst_y2 r \<and> eff_dst_y2 r \<le> int fh
       \<and> 0 \<le> eff_dst_x1 r \<and> eff_dst_x1 r < eff_dst_x2 r \<and> eff_dst_x2 r \<le> int fw
       \<and> 0 \<le> eff_src_y1_text_img r \<and> eff_src_y1_text_img r < eff_src_y2_text_img r
       \<and> eff_src_y2_text_img r \<le> int (height txt)
       \<and> 0 \<le> eff_src_x1_text_img r \<and> eff_src_x1_text_img r < eff_src_x2_text_img r
       \<and> eff_src_x2_text_img r \<le> int (width txt))
   \<and> (\<exists>canvas. place_text fh fw txt y = Inr canvas
       \<and> (\<forall>row col c. \<not> (paste_guard r \<and> in_dst r row col) \<longrightarrow> canvas row col c = 0)
       \<and> (\<forall>row col c. paste_guard r \<and> in_dst r row col \<and> c < 4 \<longrightarrow>
             canvas row col c
               = px txt (nat (int row - y))
                   (nat (int col - (int fw - int (width txt)) div 2)) c))"
proof -
  define r where "r = clip_rects fh fw (height txt) (width txt) y"
  have dims: "eff_src_y2_text_img r - eff_src_y1_text_img r = eff_dst_y2 r - eff_dst_y1 r"
    "eff_src_x2_text_img r - eff_src_x1_text_img r = eff_dst_x2 r - eff_dst_x1 r"
    by (simp_all add: r_def clip_rects_sel)
  have bounds: "paste_guard r \<longrightarrow>
         0 \<le> eff_dst_y1 r \<and> eff_dst_y1 r < eff_dst_y2 r \<and> eff_dst_y2 r \<le> int fh
       \<and> 0 \<le> eff_dst_x1 r \<and> eff_dst_x1 r < eff_dst_x2 r \<and> eff_dst_x2 r \<le> int fw
       \<and> 0 \<le> eff_src_y1_text_img r \<and> eff_src_y1_text_img r < eff_src_y2_text_img r
       \<and> eff_src_y2_text_img r \<le> int (height txt)
       \<and> 0 \<le> eff_src_x1_text_img r \<and> eff_src_x1_text_img r < eff_src_x2_text_img r
       \<and> eff_src_x2_text_img r \<le> int (width txt)"
    unfolding paste_guard_def r_def clip_rects_sel by linarith
  have canvas: "\<exists>canvas. place_text fh fw txt y = Inr canvas
       \<and> (\<forall>row col c. \<not> (paste_guard r \<and> in_dst r row col) \<longrightarrow> canvas row col c = 0)
       \<and> (\<forall>row col c. paste_guard r \<and> in_dst r row col \<and> c < 4 \<longrightarrow>
             canvas row col c
               = px txt (nat (int row - y))
                   (nat (int col - (int fw - int (width txt)) div 2)) c)"
  proof (cases "paste_guard r")
    case True
    show ?thesis
      using True place_text_paste [OF True [unfolded r_def] assms] by (simp add: r_def)
  next
    case False
    show ?thesis
      using False place_text_no_paste [OF False [unfolded r_def]] by simp
  qed
  show ?thesis
    unfolding Let_def r_def [symmetric] using dims bounds canvas by blast
qed

theorem text_paste_well_defined_witness:
  "nchan text0 = 4
   \<and> paste_guard (clip_rects 4 5 (height text0) (width text0) (- 1))
   \<and> eff_dst_y1 (clip_rects 4 5 (height text0) (width text0) (- 1)) = 0
   \<and> eff_dst_y2 (clip_rects 4 5 (height text0) (width text0) (- 1)) = 1
   \<and> eff_src_y1_text_img (clip_rects 4 5 (height text0) (width text0) (- 1)) = 1
   \<and> eff_src_y2_text_img (clip_rects 4 5 (height text0) (width text0) (- 1)) = 2
   \<and> projr (place_text 4 5 text0 (- 1)) 0 1 0 = 200
   \<and> projr (place_text 4 5 text0 (- 1)) 1 1 0 = 0"
  using text_paste_well_defined [of text0 4 5 "- 1"]
  by (auto simp: text0_def Let_def clip_rects_sel paste_guard_def in_dst_def)

text \<open>
  Claim C10 as stated fails for an offset that puts the text block wholly outside the
  frame: with a frame 4 rows high, a text block 2 rows high and the offset 5, the clipped
  destination rectangle starts at row 5, below the last row of the canvas, and the
  clipped source rectangle ends at row \<open>-1\<close>, above the first row of the text block.
  The guard of the paste is false there, nothing is pasted and the canvas stays 0.
\<close>

theorem clipped_rects_outside_counterexample:
  "eff_dst_y1 (clip_rects 4 5 (height text0) (width text0) 5) = 5
   \<and> \<not> eff_dst_y1 (clip_rects 4 5 (height text0) (width text0) 5) \<le> int 4
   \<and> eff_src_y2_text_img (clip_rects 4 5 (height text0) (width text0) 5) = - 1
   \<and> \<not> 0 \<le> eff_src_y2_text_img (clip_rects 4 5 (height text0) (width text0) 5)
   \<and> \<not> paste_guard (clip_rects 4 5 (height text0) (width text0) 5)
   \<and> place_text 4 5 text0 5 = Inr (\<lambda>y x c. 0)"
proof -
  have g: "\<not> paste_guard (clip_rects 4 5 (height text0) (width text0) 5)"
    by (simp add: paste_guard_def clip_rects_sel text0_def)
  show ?thesis
    using g place_text_no_paste [OF g]
    by (simp add: clip_rects_sel text0_def)
qed

subsection \<open>Frame counts and progress\<close>

lemma default_sweep_frames:
  "TOTAL_FRAMES default_sweep_config = 75"
  "ANIM_START_FRAME default_sweep_config = 15"
  "ANIM_END_FRAME default_sweep_config = 45"
  by (simp_all add: TOTAL_FRAMES_def ANIM_START_FRAME_def ANIM_END_FRAME_def
      default_sweep_config_def py_int_def)

lemma default_scroll_frames:
  "num_total_frames default_scroll_config = 60"
  "FRAME_HEIGHT default_scroll_config = 720"
  "mask_visible_actual_h default_scroll_config = 144"
  by (simp_all add: num_total_frames_def FRAME_HEIGHT_def mask_visible_actual_h_def
      default_scroll_config_def py_int_def)

lemma py_int_eq_py_round:
  assumes "0 \<le> x" "frac x < 1/2"
  shows "py_int x = py_round x"
  using assms by (simp add: py_int_def py_round_def Let_def frac_def)

lemma collect_length: "collect rs = Inr vs \<Longrightarrow> length vs = length rs"
proof (induction rs arbitrary: vs rule: collect.induct)
  case 1
  then show ?case by simp
next
  case (2 e rs)
  then show ?case by simp
next
  case (3 v rs)
  then show ?case by (auto split: sum.splits)
qed

lemma collect_map_Inr:
  "(\<And>x. x \<in> set xs \<Longrightarrow> f x = Inr (g x)) \<Longrightarrow> collect (map f xs) = Inr (map g xs)"
  by (induction xs) simp_all

lemma sweep_frames_length:
  assumes "create_shine_animation cfg e l sh ff = Inr frames"
  shows "length frames = nat (TOTAL_FRAMES cfg)"
  using assms
  by (auto simp: create_shine_animation_def Let_def split: if_splits imread_result.splits)

lemma scroll_frames_length:
  assumes "scroll_main cfg blur txt a b w = Inr frames"
  shows "length frames = nat (num_total_frames cfg)"
  using assms
  by (auto simp: scroll_main_def Let_def split: if_splits sum.splits dest!: collect_length)

lemma place_text_Inr:
  assumes "nchan txt = 4"
  shows "place_text fh fw txt y = Inr (projr (place_text fh fw txt y))"
proof (cases "paste_guard (clip_rects fh fw (height txt) (width txt) y)")
  case True
  show ?thesis by (simp add: place_text_paste [OF True assms])
next
  case False
  show ?thesis by (simp add: place_text_no_paste [OF False])
qed

lemma render_frame_Inr:
  assumes "nchan txt = 4"
  shows "render_frame cfg m txt y = Inr (the_frame cfg m txt y)"
  unfolding render_frame_def the_frame_def Let_def
  by (subst place_text_Inr [OF assms]) simp

lemma scroll_main_runs:
  assumes "ASPECT_RATIO_W cfg \<noteq> 0" "0 \<le> FRAME_HEIGHT cfg" "0 \<le> FEATHER_AMOUNT_PIXELS cfg"
    "nchan txt = 4" "FPS_scroll cfg div 2 \<noteq> 0"
  shows "scroll_main cfg blur txt a b True =
     Inr (map (\<lambda>idx. the_frame cfg
                 (blur (strip_mask (FRAME_WIDTH cfg) (nat (FRAME_HEIGHT cfg))
                          (mask_visible_actual_h cfg))
                    (FEATHER_AMOUNT_PIXELS cfg * 2 + 1, FEATHER_AMOUNT_PIXELS cfg * 2 + 1) 0)
                 txt
                 (current_y_pil_top (start_scroll_y_offset_pil_top cfg a)
                    (end_scroll_y_offset_pil_top cfg a b) (num_total_frames cfg) idx))
            [0..num_total_frames cfg - 1])"
proof -
  have m: "create_feathered_mask blur (FRAME_WIDTH cfg) (nat (FRAME_HEIGHT cfg))
             (mask_visible_actual_h cfg) (FEATHER_AMOUNT_PIXELS cfg) =
        Inr (blur (strip_mask (FRAME_WIDTH cfg) (nat (FRAME_HEIGHT cfg))
                          (mask_visible_actual_h cfg))
                    (FEATHER_AMOUNT_PIXELS cfg * 2 + 1, FEATHER_AMOUNT_PIXELS cfg * 2 + 1) 0)"
    using assms(3) by (simp add: create_feathered_mask_def Let_def)
  show ?thesis
    unfolding scroll_main_def m using assms(1,2)
    by (simp add: loop_body_def render_frame_Inr [OF assms(4)] assms(5) collect_map_Inr)
qed

lemma sweep_run_icon1:
  "create_shine_animation cfg True (ReadImage icon1) sh True
     = Inr (map (final_frame_uint8 cfg icon1 sh) [0..TOTAL_FRAMES cfg - 1])"
  by (simp add: create_shine_animation_def add_alpha_channel_def icon1_def)

text \<open>
  Claim C4, as amended. The number of frames a successful run generates is
  \<^verbatim>\<open>int(total_duration * fps)\<close>, the product with its fraction dropped (no frame
  when it is negative), for the sweep and for the scroll; it depends on the timeline
  configuration alone. It agrees with \<^verbatim>\<open>round(total_duration * fps)\<close> whenever
  the product is not negative and its fractional part is below one half, and for the
  configurations of the source (2.5 s and 2.0 s at 30 frames per second) it is 75 and 60.
\<close>

theorem frame_count_truncated:
  assumes "create_shine_animation cfg e l sh ff = Inr frames"
      and "scroll_main scfg blur txt a b w = Inr sframes"
  shows "int (length frames) = max 0 (py_int (TOTAL_DURATION cfg * of_int (FPS cfg)))
       \<and> int (length sframes)
           = max 0 (py_int (ANIMATION_DURATION_SECONDS scfg * of_int (FPS_scroll scfg)))
       \<and> (0 \<le> TOTAL_DURATION cfg * of_int (FPS cfg)
            \<and> frac (TOTAL_DURATION cfg * of_int (FPS cfg)) < 1/2 \<longrightarrow>
          int (length frames) = py_round (TOTAL_DURATION cfg * of_int (FPS cfg)))
       \<and> (0 \<le> ANIMATION_DURATION_SECONDS scfg * of_int (FPS_scroll scfg)
            \<and> frac (ANIMATION_DURATION_SECONDS scfg * of_int (FPS_scroll scfg)) < 1/2 \<longrightarrow>
          int (length sframes)
            = py_round (ANIMATION_DURATION_SECONDS scfg * of_int (FPS_scroll scfg)))
       \<and> (cfg = default_sweep_config \<longrightarrow> length frames = 75)
       \<and> (scfg = default_scroll_config \<longrightarrow> length sframes = 60)"
proof -
  have a: "int (length frames) = max 0 (TOTAL_FRAMES cfg)"
    using sweep_frames_length [OF assms(1)] by simp
  have b: "int (length sframes) = max 0 (num_total_frames scfg)"
    using scroll_frames_length [OF assms(2)] by simp
  have c: "0 \<le> x \<Longrightarrow> max 0 (py_int x) = py_round x" if "frac x < 1/2" for x
  proof -
    assume x: "0 \<le> x"
    then have "0 \<le> py_int x" by (simp add: py_int_def)
    then show ?thesis using py_int_eq_py_round [OF x that] by simp
  qed
  have d: "cfg = default_sweep_config \<longrightarrow> length frames = 75"
    using a default_sweep_frames(1) by auto
  have e: "scfg = default_scroll_config \<longrightarrow> length sframes = 60"
    using b default_scroll_frames(1) by auto
  show ?thesis
    using a b c d e unfolding TOTAL_FRAMES_def num_total_frames_def by simp
qed

theorem frame_count_truncated_witness:
  "\<not> isl (create_shine_animation default_sweep_config True (ReadImage icon1) white True)
   \<and> \<not> isl (scroll_main default_scroll_config (\<lambda>m k s. m) text0 40 400 True)
   \<and> length (projr (create_shine_animation default_sweep_config True (ReadImage icon1)
                white True)) = 75
   \<and> length (projr (scroll_main default_scroll_config (\<lambda>m k s. m) text0 40 400 True)) = 60
   \<and> py_round (TOTAL_DURATION default_sweep_config * of_int (FPS default_sweep_config)) = 75
   \<and> py_round (ANIMATION_DURATION_SECONDS default_scroll_config
                 * of_int (FPS_scroll default_scroll_config)) = 60"
proof -
  have r1: "create_shine_animation default_sweep_config True (ReadImage icon1) white True
     = Inr (map (final_frame_uint8 default_sweep_config icon1 white)
              [0..TOTAL_FRAMES default_sweep_config - 1])"
    by (rule sweep_run_icon1)
  have r2: "scroll_main default_scroll_config (\<lambda>m k s. m) text0 40 400 True
     = Inr (map (\<lambda>idx. the_frame default_scroll_config
                 ((\<lambda>m k s. m) (strip_mask (FRAME_WIDTH default_scroll_config)
                          (nat (FRAME_HEIGHT default_scroll_config))
                          (mask_visible_actual_h default_scroll_config))
                    (FEATHER_AMOUNT_PIXELS default_scroll_config * 2 + 1,
                     FEATHER_AMOUNT_PIXELS default_scroll_config * 2 + 1) 0)
                 text0
                 (current_y_pil_top (start_scroll_y_offset_pil_top default_scroll_config 40)
                    (end_scroll_y_offset_pil_top default_scroll_config 40 400)
                    (num_total_frames default_scroll_config) idx))
            [0..num_total_frames default_scroll_config - 1])"
    by (rule scroll_main_runs)
      (simp_all add: default_scroll_frames text0_def, simp_all add: default_scroll_config_def)
  show ?thesis
    using frame_count_truncated [OF r1 r2] r1 r2
    by (simp add: default_sweep_config_def default_scroll_config_def py_round_def Let_def
        sum.disc_eq_case split: sum.splits)
qed

text \<open>
  Claim C4 as stated fails: with a total duration of 2.625 s at 30 frames per second the
  sweep writes 78 frames, while \<^verbatim>\<open>round(2.625 * 30)\<close> is 79.
\<close>

theorem frame_count_round_counterexample:
  "\<not> isl (create_shine_animation fractional_sweep_config True (ReadImage icon1) white True)
   \<and> length (projr (create_shine_animation fractional_sweep_config True (ReadImage icon1)
                white True)) = 78
   \<and> py_round (TOTAL_DURATION fractional_sweep_config
                 * of_int (FPS fractional_sweep_config)) = 79"
proof -
  have t: "TOTAL_FRAMES fractional_sweep_config = 78"
    by (simp add: TOTAL_FRAMES_def fractional_sweep_config_def default_sweep_config_def
        py_int_def)
  have f: "\<lfloor>315 / 4 :: real\<rfloor> = 78" by linarith
  show ?thesis
    unfolding sweep_run_icon1 using t f
    by (simp add: fractional_sweep_config_def default_sweep_config_def py_round_def Let_def)
qed

text \<open>
  Claim C3, as amended. The progress handed to the easing function lies in \<open>[0,1]\<close> in
  both animations. In the scroll, the progress of the last frame is exactly 1 when the
  frame count is greater than 1, and exactly 0 otherwise. In the sweep, the progress of
  an animated frame stays below 1: on the last frame of the animated window it is
  \<open>1 - 1/n\<close> for a window of \<open>n\<close> frames.
\<close>

theorem progress_in_unit_interval:
  assumes "ANIM_START_FRAME cfg \<le> i" "i < ANIM_END_FRAME cfg"
      and "0 \<le> frame_idx" "frame_idx < num_total_frames scfg"
  shows "0 \<le> progress cfg i \<and> progress cfg i < 1
       \<and> progress cfg (ANIM_END_FRAME cfg - 1)
           = 1 - 1 / of_int (ANIM_END_FRAME cfg - ANIM_START_FRAME cfg)
       \<and> 0 \<le> scroll_progress (num_total_frames scfg) frame_idx
       \<and> scroll_progress (num_total_frames scfg) frame_idx \<le> 1
       \<and> (1 < num_total_frames scfg \<longrightarrow>
            scroll_progress (num_total_frames scfg) (num_total_frames scfg - 1) = 1)
       \<and> (\<not> 1 < num_total_frames scfg \<longrightarrow>
            scroll_progress (num_total_frames scfg) (num_total_frames scfg - 1) = 0)"
proof -
  define n where "n = ANIM_END_FRAME cfg - ANIM_START_FRAME cfg"
  define k where "k = i - ANIM_START_FRAME cfg"
  have kn: "0 \<le> k" "k < n" "0 < n" using assms(1,2) by (simp_all add: n_def k_def)
  have p: "progress cfg i = of_int k / of_int n"
    by (simp add: progress_def n_def k_def)
  have p1: "0 \<le> progress cfg i" "progress cfg i < 1"
    using kn by (simp_all add: p)
  have "progress cfg (ANIM_END_FRAME cfg - 1) = (of_int n - 1) / of_int n"
    by (simp add: progress_def n_def)
  also have "\<dots> = 1 - 1 / of_int n"
    using kn(3) by (simp add: diff_divide_distrib)
  finally have p2: "progress cfg (ANIM_END_FRAME cfg - 1) = 1 - 1 / of_int n" .
  define m where "m = num_total_frames scfg"
  have s1: "0 \<le> scroll_progress m frame_idx" "scroll_progress m frame_idx \<le> 1"
    using assms(3,4) by (simp_all add: scroll_progress_def m_def)
  have s2: "1 < m \<longrightarrow> scroll_progress m (m - 1) = 1" "\<not> 1 < m \<longrightarrow> scroll_progress m (m - 1) = 0"
    by (simp_all add: scroll_progress_def)
  show ?thesis
    using p1 p2 s1 s2 by (simp add: n_def m_def)
qed

theorem progress_in_unit_interval_witness:
  "ANIM_START_FRAME default_sweep_config \<le> 44 \<and> 44 < ANIM_END_FRAME default_sweep_config
   \<and> (0::int) \<le> 59 \<and> 59 < num_total_frames default_scroll_config
   \<and> progress default_sweep_config 44 = 29 / 30
   \<and> scroll_progress (num_total_frames default_scroll_config) 59 = 1"
  using progress_in_unit_interval [of default_sweep_config 44 59 default_scroll_config]
  by (simp add: default_sweep_frames default_scroll_frames progress_def scroll_progress_def)

text \<open>
  Claim C3 as stated fails for the sweep: with the configuration of the source the last
  animated frame is frame 44, the frame counts are greater than 1, and the progress of
  frame 44 is \<open>29/30\<close>, not 1.
\<close>

theorem last_sweep_progress_counterexample:
  "ANIM_START_FRAME default_sweep_config \<le> 44 \<and> 44 < ANIM_END_FRAME default_sweep_config
   \<and> \<not> 45 < ANIM_END_FRAME default_sweep_config
   \<and> 1 < TOTAL_FRAMES default_sweep_config
   \<and> 1 < ANIM_END_FRAME default_sweep_config - ANIM_START_FRAME default_sweep_config
   \<and> progress default_sweep_config 44 = 29 / 30
   \<and> progress default_sweep_config 44 \<noteq> 1"
  by (simp add: default_sweep_frames progress_def)

subsection \<open>The frames of the sweep\<close>

lemma sweep_run_frames:
  assumes "create_shine_animation cfg pe (ReadImage icon0) sh ff = Inr frames"
  shows "frames = map (final_frame_uint8 cfg (add_alpha_channel icon0) sh)
                    [0..TOTAL_FRAMES cfg - 1]"
    and "4 \<le> nchan (add_alpha_channel icon0)"
    and "0 < height (add_alpha_channel icon0)" and "0 < width (add_alpha_channel icon0)"
  using assms
  by (auto simp: create_shine_animation_def Let_def split: if_splits)

lemma sweep_run_nth:
  assumes "create_shine_animation cfg pe (ReadImage icon0) sh ff = Inr frames"
    and "i < length frames"
  shows "frames ! i = final_frame_uint8 cfg (add_alpha_channel icon0) sh (int i)"
proof -
  have "int i \<le> TOTAL_FRAMES cfg - 1"
    using assms(2) sweep_run_frames(1) [OF assms(1)] by simp
  then show ?thesis
    using assms(2) by (simp add: sweep_run_frames(1) [OF assms(1)])
qed

text \<open>
  Claim C9. An input image with only three channels (no alpha) gets an alpha plane that is
  255 everywhere, so it counts as fully opaque, and this happens before the layers are
  prepared and the frames composited: every frame is computed from the image with the
  added plane. A decoded colour image has three or four channels, so every image that
  enters the core has four; its size and its colour samples are those of the input, and
  an image with four channels is left as it is.
\<close>

theorem alpha_plane_synthesised:
  assumes "nchan icon0 = 3 \<or> nchan icon0 = 4"
  shows "nchan (add_alpha_channel icon0) = 4
       \<and> height (add_alpha_channel icon0) = height icon0
       \<and> width (add_alpha_channel icon0) = width icon0
       \<and> (\<forall>y x c. c < 3 \<longrightarrow> px (add_alpha_channel icon0) y x c = px icon0 y x c)
       \<and> (nchan icon0 = 3 \<longrightarrow>
            (\<forall>y x. px (add_alpha_channel icon0) y x 3 = 255
                 \<and> icon_alpha_float (add_alpha_channel icon0) y x = 1))
       \<and> (nchan icon0 = 4 \<longrightarrow> add_alpha_channel icon0 = icon0)
       \<and> (\<forall>cfg pe sh ff frames.
            create_shine_animation cfg pe (ReadImage icon0) sh ff = Inr frames \<longrightarrow>
            frames = map (final_frame_uint8 cfg (add_alpha_channel icon0) sh)
                       [0..TOTAL_FRAMES cfg - 1])"
proof -
  have "\<forall>cfg pe sh ff frames.
            create_shine_animation cfg pe (ReadImage icon0) sh ff = Inr frames \<longrightarrow>
            frames = map (final_frame_uint8 cfg (add_alpha_channel icon0) sh)
                       [0..TOTAL_FRAMES cfg - 1]"
    using sweep_run_frames(1) by blast
  then show ?thesis
    using assms by (auto simp: add_alpha_channel_def icon_alpha_float_def)
qed

theorem alpha_plane_synthesised_witness:
  "(nchan icon3 = 3 \<or> nchan icon3 = 4)
   \<and> nchan (add_alpha_channel icon3) = 4
   \<and> px (add_alpha_channel icon3) 0 0 3 = 255
   \<and> px (add_alpha_channel icon3) 0 0 2 = 51
   \<and> \<not> isl (create_shine_animation default_sweep_config True (ReadImage icon3) white True)"
  using alpha_plane_synthesised [of icon3]
  by (simp add: icon3_def add_alpha_channel_def create_shine_animation_def)

text \<open>
  Claim C2. In a run of the sweep, every frame whose index \<open>i\<close> is below
  \<^verbatim>\<open>ANIM_START_FRAME\<close> or at least \<^verbatim>\<open>ANIM_END_FRAME\<close> is, sample for
  sample, the static base composite: the colour channels of the icon multiplied by its
  alpha, converted to 8 bits, with nothing of the shine layer in it (it is also the
  composite through a mask that is 0 everywhere).
\<close>

theorem static_frames_outside_window:
  assumes "create_shine_animation cfg pe (ReadImage icon0) sh ff = Inr frames"
    and "i < length frames"
    and "int i < ANIM_START_FRAME cfg \<or> ANIM_END_FRAME cfg \<le> int i"
  shows "frames ! i = static_base_frame (add_alpha_channel icon0)
       \<and> frames ! i = (\<lambda>y x c. to_uint8
            (composite_shine (shine_bgr_float sh) (base_image (add_alpha_channel icon0))
               (\<lambda>y x. 0) y x c * 255))"
proof -
  have "frames ! i = final_frame_uint8 cfg (add_alpha_channel icon0) sh (int i)"
    by (rule sweep_run_nth [OF assms(1,2)])
  moreover have "final_frame_float cfg (add_alpha_channel icon0) sh (int i)
      = base_image (add_alpha_channel icon0)"
    using assms(3) by (auto simp: final_frame_float_def)
  ultimately show ?thesis
    by (simp add: final_frame_uint8_def static_base_frame_def base_image_def
        icon_bgr_float_def icon_alpha_float_def composite_shine_def fun_eq_iff)
qed

theorem static_frames_outside_window_witness:
  "\<not> isl (create_shine_animation default_sweep_config True (ReadImage icon1) white True)
   \<and> 14 < length (projr (create_shine_animation default_sweep_config True (ReadImage icon1)
                    white True))
   \<and> 60 < length (projr (create_shine_animation default_sweep_config True (ReadImage icon1)
                    white True))
   \<and> int 14 < ANIM_START_FRAME default_sweep_config
   \<and> ANIM_END_FRAME default_sweep_config \<le> int 60
   \<and> projr (create_shine_animation default_sweep_config True (ReadImage icon1) white True) ! 14
       = static_base_frame icon1
   \<and> projr (create_shine_animation default_sweep_config True (ReadImage icon1) white True) ! 60
       = static_base_frame icon1
   \<and> static_base_frame icon1 0 0 0 = 51"
proof -
  have r: "create_shine_animation default_sweep_config True (ReadImage icon1) white True
     = Inr (map (final_frame_uint8 default_sweep_config icon1 white)
              [0..TOTAL_FRAMES default_sweep_config - 1])"
    by (rule sweep_run_icon1)
  have a: "add_alpha_channel icon1 = icon1"
    by (simp add: add_alpha_channel_def icon1_def)
  have v: "static_base_frame icon1 0 0 0 = 51"
    by (simp add: static_base_frame_def icon1_def to_uint8_def cast_uint8_def py_int_def)
  have l: "length (map (final_frame_uint8 default_sweep_config icon1 white)
              [0..TOTAL_FRAMES default_sweep_config - 1]) = 75"
    by (simp add: default_sweep_frames)
  show ?thesis
    using static_frames_outside_window [OF r, of 14] static_frames_outside_window [OF r, of 60]
      v l
    unfolding r a by (simp add: default_sweep_frames)
qed

subsection \<open>Compositing\<close>




subsection \<open>The sweep band\<close>

lemma set_sweep_values:
  "set (sweep_values cfg icon)
     = (\<lambda>(y, x). sweep_map cfg y x) ` ({0..<height icon} \<times> {0..<width icon})"
  by (auto simp: sweep_values_def)

lemma sweep_map_in_values:
  assumes "y < height icon" "x < width icon"
  shows "sweep_map cfg y x \<in> set (sweep_values cfg icon)"
  using assms unfolding set_sweep_values by force

lemma map_min_le:
  assumes "y < height icon" "x < width icon"
  shows "map_min cfg icon \<le> sweep_map cfg y x"
  unfolding map_min_def by (rule Min_le) (simp_all add: sweep_map_in_values [OF assms])

lemma map_max_ge:
  assumes "y < height icon" "x < width icon"
  shows "sweep_map cfg y x \<le> map_max cfg icon"
  unfolding map_max_def by (rule Max_ge) (simp_all add: sweep_map_in_values [OF assms])

lemma map_min_attained:
  assumes "y < height icon" "x < width icon"
  shows "\<exists>y' x'. y' < height icon \<and> x' < width icon \<and> map_min cfg icon = sweep_map cfg y' x'"
proof -
  have "set (sweep_values cfg icon) \<noteq> {}"
    using sweep_map_in_values [OF assms, of cfg] by auto
  then have "map_min cfg icon \<in> set (sweep_values cfg icon)"
    unfolding map_min_def by (intro Min_in) simp_all
  then obtain y' x' where "y' < height icon" "x' < width icon"
      "map_min cfg icon = sweep_map cfg y' x'"
    unfolding set_sweep_values by auto
  then show ?thesis by blast
qed

lemma map_max_attained:
  assumes "y < height icon" "x < width icon"
  shows "\<exists>y' x'. y' < height icon \<and> x' < width icon \<and> map_max cfg icon = sweep_map cfg y' x'"
proof -
  have "set (sweep_values cfg icon) \<noteq> {}"
    using sweep_map_in_values [OF assms, of cfg] by auto
  then have "map_max cfg icon \<in> set (sweep_values cfg icon)"
    unfolding map_max_def by (intro Max_in) simp_all
  then obtain y' x' where "y' < height icon" "x' < width icon"
      "map_max cfg icon = sweep_map cfg y' x'"
    unfolding set_sweep_values by auto
  then show ?thesis by blast
qed

lemma gauss_mask_far:
  assumes w: "0 < shine_width_pixels cfg icon"
    and d: "shine_width_pixels cfg icon \<le> \<bar>sweep_map cfg y x - pos\<bar>"
  shows "gauss_mask cfg icon pos y x \<le> exp (- (25/4))"
proof -
  define s where "s = shine_width_pixels cfg icon"
  define d where "d = sweep_map cfg y x - pos"
  define q where "q = d / (s / 2.5)"
  have s0: "0 < s" using w by (simp add: s_def)
  have q: "q = 5/2 * (d / s)" by (simp add: q_def)
  have "1 \<le> \<bar>d\<bar> / s" using s0 d by (simp add: s_def d_def)
  then have "1 \<le> \<bar>d / s\<bar>" using s0 by simp
  then have "5/2 \<le> \<bar>q\<bar>" unfolding q abs_mult by simp
  then have "(5/2)\<^sup>2 \<le> \<bar>q\<bar>\<^sup>2" by (intro power_mono) simp_all
  then have "25/4 \<le> q\<^sup>2" by (simp add: power2_eq_square)
  then show ?thesis
    unfolding gauss_mask_def Let_def q_def d_def s_def by simp
qed

text \<open>
  Claim C7. The sweep effect computes \<open>shine_width = W * SHINE_WIDTH_FACTOR\<close>,
  \<open>sweep_start\<close> as the minimum of the sweep map minus the shine width and
  \<open>sweep_end\<close> as its maximum plus the shine width (minimum and maximum are taken
  over the pixels of the icon and attained there). So at eased progress 0 the centre
  of the band is \<open>sweep_start\<close> and at eased progress 1 it is \<open>sweep_end\<close>, at
  least one shine width away from the sweep value of every pixel: the bar is off the
  frame at both ends, where for a positive width factor the Gaussian mask is at most
  \<open>exp (-6.25)\<close> at every pixel.
\<close>

theorem sweep_band_off_frame:
  assumes "y < height icon" "x < width icon"
  shows "shine_width_pixels cfg icon = real (width icon) * SHINE_WIDTH_FACTOR cfg
       \<and> sweep_start_pos cfg icon = map_min cfg icon - shine_width_pixels cfg icon
       \<and> sweep_end_pos cfg icon = map_max cfg icon + shine_width_pixels cfg icon
       \<and> (\<exists>y' x'. y' < height icon \<and> x' < width icon
             \<and> map_min cfg icon = sweep_map cfg y' x')
       \<and> (\<exists>y' x'. y' < height icon \<and> x' < width icon
             \<and> map_max cfg icon = sweep_map cfg y' x')
       \<and> map_min cfg icon \<le> sweep_map cfg y x \<and> sweep_map cfg y x \<le> map_max cfg icon
       \<and> current_pos cfg icon 0 = sweep_start_pos cfg icon
       \<and> current_pos cfg icon 1 = sweep_end_pos cfg icon
       \<and> shine_width_pixels cfg icon \<le> sweep_map cfg y x - current_pos cfg icon 0
       \<and> shine_width_pixels cfg icon \<le> current_pos cfg icon 1 - sweep_map cfg y x
       \<and> (0 < SHINE_WIDTH_FACTOR cfg \<longrightarrow>
            gauss_mask cfg icon (current_pos cfg icon 0) y x \<le> exp (- (25/4))
          \<and> gauss_mask cfg icon (current_pos cfg icon 1) y x \<le> exp (- (25/4)))"
proof -
  have p0: "current_pos cfg icon 0 = sweep_start_pos cfg icon"
    and p1: "current_pos cfg icon 1 = sweep_end_pos cfg icon"
    by (simp_all add: current_pos_def sweep_distance_def)
  have lo: "shine_width_pixels cfg icon \<le> sweep_map cfg y x - current_pos cfg icon 0"
    using map_min_le [OF assms, of cfg] by (simp add: p0 sweep_start_pos_def)
  have hi: "shine_width_pixels cfg icon \<le> current_pos cfg icon 1 - sweep_map cfg y x"
    using map_max_ge [OF assms, of cfg] by (simp add: p1 sweep_end_pos_def)
  have g: "gauss_mask cfg icon (current_pos cfg icon 0) y x \<le> exp (- (25/4))
          \<and> gauss_mask cfg icon (current_pos cfg icon 1) y x \<le> exp (- (25/4))"
    if "0 < SHINE_WIDTH_FACTOR cfg"
  proof -
    have w: "0 < shine_width_pixels cfg icon"
      using that assms(2) by (simp add: shine_width_pixels_def)
    show ?thesis
      using lo hi by (intro conjI gauss_mask_far [OF w]) linarith+
  qed
  show ?thesis
    using p0 p1 lo hi g map_min_le [OF assms, of cfg] map_max_ge [OF assms, of cfg]
      map_min_attained [OF assms, of cfg] map_max_attained [OF assms, of cfg]
    by (simp add: shine_width_pixels_def sweep_start_pos_def sweep_end_pos_def)
qed

lemma icon1_extent:
  "map_min cfg icon1 = 0" "map_max cfg icon1 = 0"
  by (simp_all add: map_min_def map_max_def sweep_values_def sweep_map_def icon1_def)

theorem sweep_band_off_frame_witness:
  "0 < height icon1 \<and> 0 < width icon1 \<and> 0 < SHINE_WIDTH_FACTOR default_sweep_config
   \<and> shine_width_pixels default_sweep_config icon1 = 1/4
   \<and> current_pos default_sweep_config icon1 0 = - (1/4)
   \<and> current_pos default_sweep_config icon1 1 = 1/4
   \<and> sweep_map default_sweep_config 0 0 = 0
   \<and> gauss_mask default_sweep_config icon1 (current_pos default_sweep_config icon1 0) 0 0
        \<le> exp (- (25/4))"
proof -
  have w: "shine_width_pixels default_sweep_config icon1 = 1/4"
    by (simp add: shine_width_pixels_def icon1_def default_sweep_config_def)
  have s: "sweep_start_pos default_sweep_config icon1 = - (1/4)"
    "sweep_end_pos default_sweep_config icon1 = 1/4"
    by (simp_all add: sweep_start_pos_def sweep_end_pos_def icon1_extent w)
  have f: "0 < SHINE_WIDTH_FACTOR default_sweep_config"
    by (simp add: default_sweep_config_def)
  have i: "0 < height icon1" "0 < width icon1"
    by (simp_all add: icon1_def)
  note t = sweep_band_off_frame [OF i, of default_sweep_config]
  have p: "current_pos default_sweep_config icon1 0 = - (1/4)"
    "current_pos default_sweep_config icon1 1 = 1/4"
    using t s by simp_all
  have g: "gauss_mask default_sweep_config icon1 (current_pos default_sweep_config icon1 0) 0 0
        \<le> exp (- (25/4))"
    using t f by blast
  have m: "sweep_map default_sweep_config 0 0 = 0"
    by (simp add: sweep_map_def)
  show ?thesis
    by (intro conjI i f w p g m)
qed

text \<open>
  Claim C1. In a run of the sweep, for every frame index \<open>i\<close> with
  \<^verbatim>\<open>ANIM_START_FRAME <= i < ANIM_END_FRAME\<close> and every pixel and colour channel,
  the float frame is \<open>shine * alpha + base * (1 - alpha)\<close>, where \<open>alpha\<close> is
  \<open>exp (- ((sweep_map - current_pos) / (shine_width / 2.5))\<^sup>2)\<close> times the icon's
  normalised alpha, the sweep map of pixel \<open>(x, y)\<close> is \<open>x * cos theta + y * sin theta\<close>
  with \<open>theta\<close> the radians of the shine angle plus 90 degrees, and the current position
  is \<open>sweep_start + ease_out_quad progress * (sweep_end - sweep_start)\<close>. The frame
  written is this value times 255, limited to \<open>0..255\<close> and cast to 8 bits. The width
  factor is not 0, since the mask divides by the width.
\<close>

theorem sweep_frame_formula:
  assumes run: "create_shine_animation cfg pe (ReadImage icon0) sh ff = Inr frames"
    and i: "i < length frames"
    and win: "ANIM_START_FRAME cfg \<le> int i" "int i < ANIM_END_FRAME cfg"
    and wf: "SHINE_WIDTH_FACTOR cfg \<noteq> 0"
    and pix: "y < height icon0" "x < width icon0" "c < 3"
  shows "let icon = add_alpha_channel icon0;
             theta = (SHINE_ANGLE_DEG cfg + 90) * pi / 180;
             smap = real x * cos theta + real y * sin theta;
             shine_width = real (width icon) * SHINE_WIDTH_FACTOR cfg;
             sweep_start = map_min cfg icon - shine_width;
             sweep_end = map_max cfg icon + shine_width;
             p = real_of_int (int i - ANIM_START_FRAME cfg)
                   / real_of_int (ANIM_END_FRAME cfg - ANIM_START_FRAME cfg);
             pos = sweep_start + ease_out_quad p * (sweep_end - sweep_start);
             alpha = exp (- (((smap - pos) / (shine_width / 2.5))\<^sup>2))
                       * (real (unat (px icon y x 3)) / 255);
             shine = real (unat (sh y x c)) / 255;
             base = real (unat (px icon y x c)) / 255 * (real (unat (px icon y x 3)) / 255)
         in sweep_map cfg y x = smap
          \<and> final_frame_float cfg icon sh (int i) y x c = shine * alpha + base * (1 - alpha)
          \<and> (frames ! i) y x c = to_uint8 ((shine * alpha + base * (1 - alpha)) * 255)"
proof -
  define icon where "icon = add_alpha_channel icon0"
  have f: "frames ! i = final_frame_uint8 cfg icon sh (int i)"
    unfolding icon_def by (rule sweep_run_nth [OF run i])
  have m: "sweep_map cfg y x
      = real x * cos ((SHINE_ANGLE_DEG cfg + 90) * pi / 180)
        + real y * sin ((SHINE_ANGLE_DEG cfg + 90) * pi / 180)"
    by (simp add: sweep_map_def sweep_angle_rad_def radians_def)
  have a: "shine_alpha cfg icon (int i) y x
      = exp (- (((sweep_map cfg y x
                   - (map_min cfg icon - real (width icon) * SHINE_WIDTH_FACTOR cfg
                      + ease_out_quad (real_of_int (int i - ANIM_START_FRAME cfg)
                            / real_of_int (ANIM_END_FRAME cfg - ANIM_START_FRAME cfg))
                        * (map_max cfg icon + real (width icon) * SHINE_WIDTH_FACTOR cfg
                           - (map_min cfg icon - real (width icon) * SHINE_WIDTH_FACTOR cfg))))
                 / (real (width icon) * SHINE_WIDTH_FACTOR cfg / 2.5))\<^sup>2))
        * (real (unat (px icon y x 3)) / 255)"
    by (simp only: shine_alpha_def gauss_mask_def Let_def current_pos_def progress_def
        sweep_distance_def sweep_start_pos_def sweep_end_pos_def shine_width_pixels_def
        icon_alpha_float_def)
  have v: "final_frame_float cfg icon sh (int i) y x c
      = real (unat (sh y x c)) / 255 * shine_alpha cfg icon (int i) y x
        + real (unat (px icon y x c)) / 255 * (real (unat (px icon y x 3)) / 255)
          * (1 - shine_alpha cfg icon (int i) y x)"
    using win
    by (simp only: final_frame_float_def composite_shine_def shine_bgr_float_def
        base_image_def icon_bgr_float_def icon_alpha_float_def simp_thms if_True)
  show ?thesis
    unfolding Let_def icon_def [symmetric] f final_frame_uint8_def v a m by simp
qed

theorem sweep_frame_formula_witness:
  "\<not> isl (create_shine_animation default_sweep_config True (ReadImage icon1) white True)
   \<and> 30 < length (projr (create_shine_animation default_sweep_config True (ReadImage icon1)
                    white True))
   \<and> ANIM_START_FRAME default_sweep_config \<le> int 30
   \<and> int 30 < ANIM_END_FRAME default_sweep_config
   \<and> SHINE_WIDTH_FACTOR default_sweep_config \<noteq> 0
   \<and> 0 < height icon1 \<and> 0 < width icon1
   \<and> final_frame_float default_sweep_config icon1 white 30 0 0 0
        = exp (- (25/16)) + 1/5 * (1 - exp (- (25/16)))"
proof -
  have r: "create_shine_animation default_sweep_config True (ReadImage icon1) white True
     = Inr (map (final_frame_uint8 default_sweep_config icon1 white)
              [0..TOTAL_FRAMES default_sweep_config - 1])"
    by (rule sweep_run_icon1)
  have l: "30 < length (map (final_frame_uint8 default_sweep_config icon1 white)
              [0..TOTAL_FRAMES default_sweep_config - 1])"
    by (simp add: default_sweep_frames)
  have w: "ANIM_START_FRAME default_sweep_config \<le> int 30"
    "int 30 < ANIM_END_FRAME default_sweep_config"
    by (simp_all add: default_sweep_frames)
  have f: "SHINE_WIDTH_FACTOR default_sweep_config \<noteq> 0"
    by (simp add: default_sweep_config_def)
  have d: "0 < height icon1" "0 < width icon1" "(0::nat) < 3"
    by (simp_all add: icon1_def)
  have a: "add_alpha_channel icon1 = icon1"
    by (simp add: add_alpha_channel_def icon1_def)
  have e: "ease_out_quad (1/2) = 3/4"
    by (simp add: ease_out_quad_def)
  have q: "((1 / 8) / (1 / 4 / 2.5 :: real))\<^sup>2 = 25/16"
    by (simp add: power2_eq_square)
  have v: "final_frame_float default_sweep_config icon1 white 30 0 0 0
        = exp (- (25/16)) + 1/5 * (1 - exp (- (25/16)))"
    using sweep_frame_formula [OF r l w f d]
    unfolding Let_def a icon1_extent
    by (simp add: default_sweep_frames e q)
      (simp add: icon1_def white_def default_sweep_config_def e q power2_eq_square)
  show ?thesis
    unfolding r using l w f d v by simp
qed

subsection \<open>The feathered mask of the scroll\<close>

lemma strip_mask_shape:
  "rows (strip_mask fw fh vh) = fh" "cols (strip_mask fw fh vh) = fw"
  by (simp_all add: strip_mask_def cv2_rectangle_def Let_def)

lemma strip_mask_cell:
  assumes "x \<le> fw"
  shows "cell (strip_mask fw fh vh) y x
     = (if \<bar>int y - int fh div 2\<bar> \<le> \<bar>vh div 2\<bar> then 255 else 0)"
proof -
  have "(min (int fh div 2 - vh div 2) (int fh div 2 + vh div 2) \<le> int y
         \<and> int y \<le> max (int fh div 2 - vh div 2) (int fh div 2 + vh div 2))
      = (\<bar>int y - int fh div 2\<bar> \<le> \<bar>vh div 2\<bar>)"
    by linarith
  then show ?thesis
    using assms by (simp add: strip_mask_def cv2_rectangle_def Let_def)
qed

lemma strip_rows_length:
  assumes "0 \<le> vh div 2" "vh div 2 \<le> int fh div 2" "int fh div 2 + vh div 2 < int fh"
  shows "int (length (strip_rows (strip_mask fw fh vh))) = 2 * (vh div 2) + 1"
proof -
  define c where "c = int fh div 2"
  define h where "h = vh div 2"
  have hc: "0 \<le> h" "h \<le> c" "c + h < int fh"
    using assms by (simp_all add: c_def h_def)
  have cell: "(cell (strip_mask fw fh vh) y 0 = 255) = (\<bar>int y - c\<bar> \<le> \<bar>h\<bar>)" for y
    by (simp add: strip_mask_cell c_def h_def)
  have "length (strip_rows (strip_mask fw fh vh))
      = card ({y. \<bar>int y - c\<bar> \<le> \<bar>h\<bar>} \<inter> set [0..<fh])"
    unfolding strip_rows_def strip_mask_shape cell by (rule distinct_length_filter) simp
  moreover have "{y. \<bar>int y - c\<bar> \<le> \<bar>h\<bar>} \<inter> set [0..<fh] = {nat (c - h)..nat (c + h)}"
    using hc by (auto simp: abs_le_iff; arith)
  moreover have "int (card {nat (c - h)..nat (c + h)}) = 2 * h + 1"
    using hc by (simp; arith)
  ultimately show ?thesis
    by (simp only: h_def)
qed

lemma collect_nth:
  "collect rs = Inr vs \<Longrightarrow> i < length rs \<Longrightarrow> rs ! i = Inr (vs ! i)"
proof (induction rs arbitrary: vs i rule: collect.induct)
  case 1
  then show ?case by simp
next
  case (2 e rs)
  then show ?case by simp
next
  case (3 v rs)
  then show ?case by (cases i) (auto split: sum.splits)
qed

lemma loop_body_Inr:
  "loop_body cfg m txt s e idx = Inr f \<Longrightarrow>
     render_frame cfg m txt (current_y_pil_top s e (num_total_frames cfg) idx) = Inr f"
  by (auto simp: loop_body_def split: sum.splits if_splits)

lemma create_feathered_mask_Inr:
  "create_feathered_mask blur fw fh vh f = Inr m \<Longrightarrow>
     m = blur (strip_mask fw fh vh) (f * 2 + 1, f * 2 + 1) 0"
  by (auto simp: create_feathered_mask_def Let_def split: if_splits)

lemma scroll_main_parts:
  assumes "scroll_main cfg blur txt a b w = Inr frames"
  shows "create_feathered_mask blur (FRAME_WIDTH cfg) (nat (FRAME_HEIGHT cfg))
           (mask_visible_actual_h cfg) (FEATHER_AMOUNT_PIXELS cfg)
         = Inr (blur (strip_mask (FRAME_WIDTH cfg) (nat (FRAME_HEIGHT cfg))
                    (mask_visible_actual_h cfg))
              (FEATHER_AMOUNT_PIXELS cfg * 2 + 1, FEATHER_AMOUNT_PIXELS cfg * 2 + 1) 0)"
    and "collect (map (loop_body cfg
                   (blur (strip_mask (FRAME_WIDTH cfg) (nat (FRAME_HEIGHT cfg))
                            (mask_visible_actual_h cfg))
                      (FEATHER_AMOUNT_PIXELS cfg * 2 + 1, FEATHER_AMOUNT_PIXELS cfg * 2 + 1) 0)
                   txt (start_scroll_y_offset_pil_top cfg a)
                   (end_scroll_y_offset_pil_top cfg a b))
               [0..num_total_frames cfg - 1]) = Inr frames"
proof -
  obtain m where m: "create_feathered_mask blur (FRAME_WIDTH cfg) (nat (FRAME_HEIGHT cfg))
           (mask_visible_actual_h cfg) (FEATHER_AMOUNT_PIXELS cfg) = Inr m"
    and c: "collect (map (loop_body cfg m txt (start_scroll_y_offset_pil_top cfg a)
                      (end_scroll_y_offset_pil_top cfg a b))
               [0..num_total_frames cfg - 1]) = Inr frames"
    using assms by (auto simp: scroll_main_def split: if_splits sum.splits)
  have m': "m = blur (strip_mask (FRAME_WIDTH cfg) (nat (FRAME_HEIGHT cfg))
                    (mask_visible_actual_h cfg))
              (FEATHER_AMOUNT_PIXELS cfg * 2 + 1, FEATHER_AMOUNT_PIXELS cfg * 2 + 1) 0"
    by (rule create_feathered_mask_Inr [OF m])
  show "create_feathered_mask blur (FRAME_WIDTH cfg) (nat (FRAME_HEIGHT cfg))
           (mask_visible_actual_h cfg) (FEATHER_AMOUNT_PIXELS cfg)
         = Inr (blur (strip_mask (FRAME_WIDTH cfg) (nat (FRAME_HEIGHT cfg))
                    (mask_visible_actual_h cfg))
              (FEATHER_AMOUNT_PIXELS cfg * 2 + 1, FEATHER_AMOUNT_PIXELS cfg * 2 + 1) 0)"
    using m m' by simp
  show "collect (map (loop_body cfg
                   (blur (strip_mask (FRAME_WIDTH cfg) (nat (FRAME_HEIGHT cfg))
                            (mask_visible_actual_h cfg))
                      (FEATHER_AMOUNT_PIXELS cfg * 2 + 1, FEATHER_AMOUNT_PIXELS cfg * 2 + 1) 0)
                   txt (start_scroll_y_offset_pil_top cfg a)
                   (end_scroll_y_offset_pil_top cfg a b))
               [0..num_total_frames cfg - 1]) = Inr frames"
    using c m' by simp
qed

lemma scroll_main_frames:
  assumes "scroll_main cfg blur txt a b w = Inr frames" and "idx < length frames"
  shows "render_frame cfg
           (blur (strip_mask (FRAME_WIDTH cfg) (nat (FRAME_HEIGHT cfg))
                    (mask_visible_actual_h cfg))
              (FEATHER_AMOUNT_PIXELS cfg * 2 + 1, FEATHER_AMOUNT_PIXELS cfg * 2 + 1) 0)
           txt
           (current_y_pil_top (start_scroll_y_offset_pil_top cfg a)
              (end_scroll_y_offset_pil_top cfg a b) (num_total_frames cfg) (int idx))
         = Inr (frames ! idx)"
proof -
  note c = scroll_main_parts(2) [OF assms(1)]
  have l: "length frames = nat (num_total_frames cfg)"
    using collect_length [OF c] by simp
  then have i: "int idx \<le> num_total_frames cfg - 1" using assms(2) by simp
  have "map (loop_body cfg
               (blur (strip_mask (FRAME_WIDTH cfg) (nat (FRAME_HEIGHT cfg))
                        (mask_visible_actual_h cfg))
                  (FEATHER_AMOUNT_PIXELS cfg * 2 + 1, FEATHER_AMOUNT_PIXELS cfg * 2 + 1) 0)
               txt (start_scroll_y_offset_pil_top cfg a)
               (end_scroll_y_offset_pil_top cfg a b)) [0..num_total_frames cfg - 1] ! idx
        = Inr (frames ! idx)"
    using assms(2) l by (intro collect_nth [OF c]) simp
  then have "loop_body cfg
               (blur (strip_mask (FRAME_WIDTH cfg) (nat (FRAME_HEIGHT cfg))
                        (mask_visible_actual_h cfg))
                  (FEATHER_AMOUNT_PIXELS cfg * 2 + 1, FEATHER_AMOUNT_PIXELS cfg * 2 + 1) 0)
               txt (start_scroll_y_offset_pil_top cfg a)
               (end_scroll_y_offset_pil_top cfg a b) (int idx) = Inr (frames ! idx)"
    using assms(2) l i by simp
  then show ?thesis by (rule loop_body_Inr)
qed

text \<open>
  Claim C8, as amended. In a run of the scroll, the mask is built from a binary band that
  spans the width of the frame and the rows from \<open>H div 2 - vh div 2\<close> to
  \<open>H div 2 + vh div 2\<close>, both included, where \<open>vh\<close> is
  \<^verbatim>\<open>int(H * visible_height_factor)\<close>: the band is symmetric about the row
  \<open>H div 2\<close> and, when it fits in the frame, \<open>2 * (vh div 2) + 1\<close> rows high. The
  band is then blurred with a Gaussian kernel of size \<open>2 * feather_px + 1\<close>. The mask
  is one value of the run, built before the loop: every frame is rendered through it.
\<close>

theorem feathered_mask_built_once:
  assumes "scroll_main cfg blur txt a b w = Inr frames"
  shows "let fw = FRAME_WIDTH cfg; fh = nat (FRAME_HEIGHT cfg);
             vh = mask_visible_actual_h cfg;
             k = FEATHER_AMOUNT_PIXELS cfg * 2 + 1;
             band = strip_mask fw fh vh;
             feathered = blur band (k, k) 0
         in vh = py_int (of_int (FRAME_HEIGHT cfg) * MASK_VISIBLE_HEIGHT_FACTOR cfg)
          \<and> rows band = fh \<and> cols band = fw
          \<and> (\<forall>y x. x < fw \<longrightarrow>
                cell band y x = (if \<bar>int y - int fh div 2\<bar> \<le> \<bar>vh div 2\<bar> then 255 else 0))
          \<and> (0 \<le> vh div 2 \<and> vh div 2 \<le> int fh div 2 \<and> int fh div 2 + vh div 2 < int fh \<longrightarrow>
                int (length (strip_rows band)) = 2 * (vh div 2) + 1)
          \<and> create_feathered_mask blur fw fh vh (FEATHER_AMOUNT_PIXELS cfg) = Inr feathered
          \<and> (\<forall>idx < length frames.
                render_frame cfg feathered txt
                  (current_y_pil_top (start_scroll_y_offset_pil_top cfg a)
                     (end_scroll_y_offset_pil_top cfg a b) (num_total_frames cfg) (int idx))
                = Inr (frames ! idx))"
  unfolding Let_def
  using scroll_main_frames [OF assms] scroll_main_parts(1) [OF assms] strip_rows_length
  by (simp add: strip_mask_shape strip_mask_cell mask_visible_actual_h_def)

lemma default_strip_rows:
  "length (strip_rows (strip_mask (FRAME_WIDTH default_scroll_config)
             (nat (FRAME_HEIGHT default_scroll_config))
             (mask_visible_actual_h default_scroll_config))) = 145"
proof -
  have "int (length (strip_rows (strip_mask (FRAME_WIDTH default_scroll_config) 720 144)))
      = 2 * (144 div 2) + 1"
    by (rule strip_rows_length) simp_all
  then show ?thesis by (simp add: default_scroll_frames)
qed

theorem feathered_mask_built_once_witness:
  "\<not> isl (scroll_main default_scroll_config (\<lambda>m k s. m) text0 40 400 True)
   \<and> length (projr (scroll_main default_scroll_config (\<lambda>m k s. m) text0 40 400 True)) = 60
   \<and> mask_visible_actual_h default_scroll_config = 144
   \<and> cell (strip_mask 1280 720 144) 288 0 = 255
   \<and> cell (strip_mask 1280 720 144) 432 1279 = 255
   \<and> cell (strip_mask 1280 720 144) 287 0 = 0
   \<and> cell (strip_mask 1280 720 144) 433 0 = 0
   \<and> length (strip_rows (strip_mask 1280 720 144)) = 145
   \<and> isl (render_frame default_scroll_config (strip_mask 1280 720 144) text0
             (current_y_pil_top (start_scroll_y_offset_pil_top default_scroll_config 40)
                (end_scroll_y_offset_pil_top default_scroll_config 40 400)
                (num_total_frames default_scroll_config) (int 59))) = False"
proof -
  have r: "scroll_main default_scroll_config (\<lambda>m k s. m) text0 40 400 True
     = Inr (map (\<lambda>idx. the_frame default_scroll_config
                 ((\<lambda>m k s. m) (strip_mask (FRAME_WIDTH default_scroll_config)
                          (nat (FRAME_HEIGHT default_scroll_config))
                          (mask_visible_actual_h default_scroll_config))
                    (FEATHER_AMOUNT_PIXELS default_scroll_config * 2 + 1,
                     FEATHER_AMOUNT_PIXELS default_scroll_config * 2 + 1) 0)
                 text0
                 (current_y_pil_top (start_scroll_y_offset_pil_top default_scroll_config 40)
                    (end_scroll_y_offset_pil_top default_scroll_config 40 400)
                    (num_total_frames default_scroll_config) idx))
            [0..num_total_frames default_scroll_config - 1])"
    by (rule scroll_main_runs)
      (simp_all add: default_scroll_frames text0_def, simp_all add: default_scroll_config_def)
  have w: "FRAME_WIDTH default_scroll_config = 1280"
    by (simp add: default_scroll_config_def)
  note t = feathered_mask_built_once [OF r, unfolded Let_def default_scroll_frames w]
  have c: "cell (strip_mask 1280 720 144) 288 0 = 255"
    "cell (strip_mask 1280 720 144) 432 1279 = 255"
    "cell (strip_mask 1280 720 144) 287 0 = 0"
    "cell (strip_mask 1280 720 144) 433 0 = 0"
    using t by simp_all
  have n: "length (strip_rows (strip_mask 1280 720 144)) = 145"
    using t by simp
  have "\<forall>idx<60. isl (render_frame default_scroll_config (strip_mask 1280 720 144) text0
             (current_y_pil_top (start_scroll_y_offset_pil_top default_scroll_config 40)
                (end_scroll_y_offset_pil_top default_scroll_config 40 400)
                60 (int idx))) = False"
    using t by simp
  then have f: "isl (render_frame default_scroll_config (strip_mask 1280 720 144) text0
             (current_y_pil_top (start_scroll_y_offset_pil_top default_scroll_config 40)
                (end_scroll_y_offset_pil_top default_scroll_config 40 400)
                60 (int 59))) = False"
    by (elim allE [of _ 59]) simp
  show ?thesis
    unfolding r using c n f by (simp add: default_scroll_frames)
qed

text \<open>
  Claim C8 as stated fails on the height of the band: with the configuration of the
  source, \<open>H * visible_height_factor\<close> is 144 and the band has 145 rows.
\<close>

theorem strip_height_counterexample:
  "mask_visible_actual_h default_scroll_config = 144
   \<and> of_int (FRAME_HEIGHT default_scroll_config)
       * MASK_VISIBLE_HEIGHT_FACTOR default_scroll_config = 144
   \<and> length (strip_rows (strip_mask (FRAME_WIDTH default_scroll_config)
               (nat (FRAME_HEIGHT default_scroll_config))
               (mask_visible_actual_h default_scroll_config))) = 145"
  using default_strip_rows
  by (simp add: default_scroll_frames) (simp add: default_scroll_config_def)

end
